theory Spec2Isabelle
  imports Complex_Main "HOL-Library.Word"
begin

unbundle bit_operations_syntax

text \<open>
  A shallow embedding of the input subsystem of naev (src/input.c) and of the ship
  statistics declared in src/shipstats.h. The static variables of input.c are the
  fields of a state record that every function takes and returns; the calls into the
  rest of the game are recorded, in order, in a trace; what the code asks of the rest of
  the game is read from records of their answers. Unsigned ints are 32-bit words, and
  the doubles are read as reals.
\<close>

section \<open>Keybindings (input.c)\<close>

text \<open>
  The kinds of a binding. The enum \<^verbatim>\<open>KeybindType\<close> is declared in input.h; its
  enumerators are the ones input.c names.
\<close>

datatype KeybindType =
    KEYBIND_NULL
  | KEYBIND_KEYBOARD
  | KEYBIND_JAXISPOS
  | KEYBIND_JAXISNEG
  | KEYBIND_JBUTTON
  | KEYBIND_JHAT_UP
  | KEYBIND_JHAT_DOWN
  | KEYBIND_JHAT_LEFT
  | KEYBIND_JHAT_RIGHT

text \<open>\<^verbatim>\<open>SDL_Keycode\<close> is a 32-bit integer, \<^verbatim>\<open>SDL_Keymod\<close> an int-sized enum of bits.\<close>

type_synonym SDL_Keycode = "32 word"
type_synonym SDL_Keymod = "32 word"

text \<open>
  Modelled from the spec: the modifier masks \<^verbatim>\<open>NMOD_*\<close> of input.h, a header that is
  not among the sources. The spec gives the bit-set None, Ctrl, Shift, Alt, Meta and the
  match-all sentinel Any, which translation never produces.
\<close>

definition NMOD_NONE :: SDL_Keymod where "NMOD_NONE = 0"
definition NMOD_SHIFT :: SDL_Keymod where "NMOD_SHIFT = 1"
definition NMOD_CTRL :: SDL_Keymod where "NMOD_CTRL = 2"
definition NMOD_ALT :: SDL_Keymod where "NMOD_ALT = 4"
definition NMOD_META :: SDL_Keymod where "NMOD_META = 8"
definition NMOD_ANY :: SDL_Keymod where "NMOD_ANY = 0xFFFF"

definition SDLK_UNKNOWN :: SDL_Keycode where "SDLK_UNKNOWN = 0"

text \<open>The struct \<^verbatim>\<open>Keybind\<close>; \<^verbatim>\<open>disabled\<close> is an int used as a truth value.\<close>

record Keybind =
  kb_disabled :: bool
  kb_name :: string
  kb_type :: KeybindType
  kb_key :: SDL_Keycode
  kb_mod :: SDL_Keymod

text \<open>The first column of \<^verbatim>\<open>keybind_info\<close>, without the terminating NULL row.\<close>

definition keybind_info :: "string list" where
  "keybind_info =
    [''accel'', ''left'', ''right'', ''reverse'',
     ''target_next'', ''target_prev'', ''target_nearest'', ''target_nextHostile'',
     ''target_prevHostile'', ''target_hostile'', ''target_clear'',
     ''primary'', ''face'', ''board'',
     ''secondary'', ''weapset1'', ''weapset2'', ''weapset3'', ''weapset4'', ''weapset5'',
     ''weapset6'', ''weapset7'', ''weapset8'', ''weapset9'', ''weapset0'',
     ''e_targetNext'', ''e_targetPrev'', ''e_attack'', ''e_hold'', ''e_return'', ''e_clear'',
     ''autonav'', ''target_planet'', ''land'', ''thyperspace'', ''starmap'', ''jump'',
     ''overlay'', ''mousefly'', ''autobrake'',
     ''log_up'', ''log_down'', ''hail'', ''autohail'',
     ''mapzoomin'', ''mapzoomout'', ''screenshot'', ''togglefullscreen'', ''pause'',
     ''speed'', ''menu'', ''info'', ''console'',
     ''switchtab1'', ''switchtab2'', ''switchtab3'', ''switchtab4'', ''switchtab5'',
     ''switchtab6'', ''switchtab7'', ''switchtab8'', ''switchtab9'', ''switchtab0'']"

definition input_numbinds :: nat where
  "input_numbinds = length keybind_info"

text \<open>\<^verbatim>\<open>input_init\<close>: one safe null binding for each name (memset clears \<^verbatim>\<open>disabled\<close>).\<close>

definition input_init :: "Keybind list" where
  "input_init =
     map (\<lambda>n. \<lparr>kb_disabled = False, kb_name = n, kb_type = KEYBIND_NULL,
               kb_key = SDLK_UNKNOWN, kb_mod = NMOD_NONE\<rparr>) keybind_info"

text \<open>The diagnostics \<^verbatim>\<open>WARN\<close> writes; they never stop the program.\<close>

datatype Warning =
    WARN_set_unknown string
  | WARN_get_unknown string
  | WARN_gfx_range

text \<open>
  \<^verbatim>\<open>input_setKeybind\<close>: the loop runs over the table and stops at the first binding of
  that name; \<open>None\<close> is the loop running off the end.
\<close>

fun setKeybind_loop ::
  "string \<Rightarrow> KeybindType \<Rightarrow> SDL_Keycode \<Rightarrow> SDL_Keymod \<Rightarrow> Keybind list \<Rightarrow> Keybind list option"
where
  "setKeybind_loop keybind ty k m [] = None"
| "setKeybind_loop keybind ty k m (b # bs) =
     (if keybind = kb_name b
      then Some (b\<lparr>kb_type := ty, kb_key := k,
                   kb_mod := (if ty = KEYBIND_KEYBOARD then m else NMOD_ANY)\<rparr> # bs)
      else map_option ((#) b) (setKeybind_loop keybind ty k m bs))"

definition input_setKeybind ::
  "string \<Rightarrow> KeybindType \<Rightarrow> SDL_Keycode \<Rightarrow> SDL_Keymod \<Rightarrow> Keybind list
     \<Rightarrow> Keybind list \<times> Warning list"
where
  "input_setKeybind keybind ty k m kbs =
     (case setKeybind_loop keybind ty k m kbs of
        Some kbs' \<Rightarrow> (kbs', [])
      | None \<Rightarrow> (kbs, [WARN_set_unknown keybind]))"

text \<open>
  \<^verbatim>\<open>input_getKeybind\<close>: the result is the returned key, what was stored through the
  out-pointers \<^verbatim>\<open>type\<close> and \<^verbatim>\<open>mod\<close> (\<open>None\<close>: nothing was stored), and the warnings.
  On a miss the return value is \<^verbatim>\<open>(SDL_Keycode)-1\<close>.
\<close>

fun getKeybind_loop :: "string \<Rightarrow> Keybind list \<Rightarrow> Keybind option" where
  "getKeybind_loop keybind [] = None"
| "getKeybind_loop keybind (b # bs) =
     (if keybind = kb_name b then Some b else getKeybind_loop keybind bs)"

definition input_getKeybind ::
  "string \<Rightarrow> Keybind list \<Rightarrow> SDL_Keycode \<times> (KeybindType \<times> SDL_Keymod) option \<times> Warning list"
where
  "input_getKeybind keybind kbs =
     (case getKeybind_loop keybind kbs of
        Some b \<Rightarrow> (kb_key b, Some (kb_type b, kb_mod b), [])
      | None \<Rightarrow> (- 1, None, [WARN_get_unknown keybind]))"

section \<open>The dispatcher (input.c)\<close>

text \<open>The fields of \<^verbatim>\<open>conf\<close> that input.c reads: three unsigned ints and a double.\<close>

record Conf =
  repeat_delay :: "32 word"
  repeat_freq :: "32 word"
  afterburn_sens :: "32 word"
  mouse_doubleclick :: real

text \<open>
  What input.c asks of the rest of the game and does not change itself: whether the
  toolkit or the map is open, whether \<^verbatim>\<open>player.p\<close> is set, the flags of the player's
  pilot, \<^verbatim>\<open>landed\<close> and \<^verbatim>\<open>paused\<close>, and the player's current targets.
\<close>

record Env =
  toolkit_isOpen :: bool
  map_isOpen :: bool
  player_p :: bool
  PILOT_HYP_PREP :: bool
  PILOT_HYP_BEGIN :: bool
  PILOT_HYPERSPACE :: bool
  PILOT_DEAD :: bool
  PILOT_LANDING :: bool
  landed :: bool
  paused :: bool
  player_target :: nat
  nav_planet :: int
  nav_hyperspace :: int

definition INGAME :: "Env \<Rightarrow> bool" where
  "INGAME e = (\<not> toolkit_isOpen e)"

definition NOHYP :: "Env \<Rightarrow> bool" where
  "NOHYP e = (player_p e \<and> \<not> PILOT_HYP_PREP e \<and> \<not> PILOT_HYP_BEGIN e \<and> \<not> PILOT_HYPERSPACE e)"

definition NODEAD :: "Env \<Rightarrow> bool" where
  "NODEAD e = (player_p e \<and> \<not> PILOT_DEAD e)"

definition NOLAND :: "Env \<Rightarrow> bool" where
  "NOLAND e = (player_p e \<and> (\<not> landed e \<and> \<not> PILOT_LANDING e))"

datatype PlayerFlag =
    PLAYER_ACCEL | PLAYER_TURN_LEFT | PLAYER_TURN_RIGHT | PLAYER_REVERSE | PLAYER_PRIMARY
  | PLAYER_FACE | PLAYER_SECONDARY | PLAYER_CINEMATICS_2X | PLAYER_DESTROYED

datatype PInput = PINPUT_NULL | PINPUT_MOVEMENT | PINPUT_BRAKING

text \<open>What a click can land on; \<^verbatim>\<open>input_lastClicked\<close> points to one of them.\<close>

datatype Entity =
    EPilot nat
  | EPlanet int
  | EJump int
  | EAsteroid int int

text \<open>
  The calls input.c makes into the rest of the game, in the order it makes them, are
  the observable behaviour of the dispatcher: each is one command of the trace.
\<close>

datatype Cmd =
    player_restoreControl PInput
  | player_accel real
  | player_accelOver
  | pilot_afterburn
  | pilot_afterburnOver
  | player_targetNext int
  | player_targetPrev int
  | player_targetNearest
  | player_targetHostile
  | player_targetClear
  | player_board
  | player_targetEscort int
  | escorts_attack
  | escorts_hold
  | escorts_return
  | escorts_clear
  | player_weapSetPress int real bool
  | player_autonavStartWindow
  | player_autonavStart
  | player_targetPlanet
  | player_land
  | player_targetHyperspace
  | map_open
  | player_jump
  | ovr_key real
  | player_toggleMouseFly
  | player_brake
  | gui_messageScrollUp int
  | gui_messageScrollDown int
  | player_hail
  | player_autohail
  | gui_setRadarRel int
  | player_screenshot
  | naev_toggleFullscreen
  | unpause_game
  | pause_player
  | player_resetSpeed
  | menu_small
  | menu_info
  | cli_open
  | hooks_runParam_input string bool
  | hooks_runParam_mouse int
  | SDL_ShowCursor bool
  | player_targetSet nat
  | player_autonavPil nat
  | player_targetPlanetSet int
  | player_autonavPnt string
  | player_hyperspacePreempt int
  | player_hailPlanet
  | map_select string int
  | player_targetHyperspaceSet int
  | player_targetAsteroidSet int int
  | player_autonavPos real real
  | WARN Warning

text \<open>
  The state input.c owns (its static variables), the part of \<^verbatim>\<open>player\<close> it writes
  directly (the flags, \<^verbatim>\<open>player_left\<close>, \<^verbatim>\<open>player_right\<close>, \<^verbatim>\<open>player.speed\<close>), and the
  trace of the calls made so far. \<^verbatim>\<open>SDL_GetTicks\<close> counts in 32 bits.
\<close>

record Input =
  input_keybinds :: "Keybind list"
  input_accelLast :: "32 word"
  input_accelButton :: int
  repeat_key :: int
  repeat_keyTimer :: "32 word"
  repeat_keyCounter :: "32 word"
  input_mouseTimer :: real
  input_mouseCounter :: int
  input_mouseClickLast :: "32 word"
  input_lastClicked :: "Entity option"
  player_flags :: "PlayerFlag set"
  player_left :: real
  player_right :: real
  player_speed :: real
  trace :: "Cmd list"

definition emit :: "Cmd list \<Rightarrow> Input \<Rightarrow> Input" where
  "emit cs s = s\<lparr>trace := trace s @ cs\<rparr>"

definition player_setFlag :: "PlayerFlag \<Rightarrow> Input \<Rightarrow> Input" where
  "player_setFlag f s = s\<lparr>player_flags := insert f (player_flags s)\<rparr>"

definition player_rmFlag :: "PlayerFlag \<Rightarrow> Input \<Rightarrow> Input" where
  "player_rmFlag f s = s\<lparr>player_flags := player_flags s - {f}\<rparr>"

definition player_isFlag :: "PlayerFlag \<Rightarrow> Input \<Rightarrow> bool" where
  "player_isFlag f s = (f \<in> player_flags s)"

text \<open>
  Modelled from the spec: the macros \<^verbatim>\<open>KEY_PRESS\<close> and \<^verbatim>\<open>KEY_RELEASE\<close> of input.h, a
  header that is not among the sources. The spec tells a press from a release, and the
  notification \<^verbatim>\<open>isPress\<close> is \<^verbatim>\<open>value > 0\<close>; the doubles are read as reals.
\<close>

definition KEY_PRESS :: real where "KEY_PRESS = 1"
definition KEY_RELEASE :: real where "KEY_RELEASE = - 1"

text \<open>
  The accel branch of \<^verbatim>\<open>input_key\<close>. \<open>now\<close> is what \<^verbatim>\<open>SDL_GetTicks\<close> returns; the
  subtraction \<^verbatim>\<open>t-input_accelLast\<close> and the comparison are unsigned.
\<close>

definition input_key_accel ::
  "Conf \<Rightarrow> Env \<Rightarrow> 32 word \<Rightarrow> real \<Rightarrow> real \<Rightarrow> Input \<Rightarrow> Input"
where
  "input_key_accel c e now val kabs s =
     (if kabs \<ge> 0 then
        (emit [player_restoreControl PINPUT_MOVEMENT, player_accel kabs] s)
          \<lparr>input_accelButton := 1\<rparr>
      else
        let s1 =
              (if val = KEY_PRESS then
                 (player_setFlag PLAYER_ACCEL
                    (emit [player_restoreControl PINPUT_MOVEMENT, player_accel 1] s))
                   \<lparr>input_accelButton := 1\<rparr>
               else if val = KEY_RELEASE then
                 (player_rmFlag PLAYER_ACCEL (emit [player_accelOver] s))
                   \<lparr>input_accelButton := 0\<rparr>
               else s);
            t = now;
            s2 =
              (if afterburn_sens c \<noteq> 0 \<and> val = KEY_PRESS \<and> INGAME e \<and> NOHYP e \<and> NODEAD e
                  \<and> t - input_accelLast s1 \<le> afterburn_sens c
               then emit [pilot_afterburn] s1
               else if val = KEY_RELEASE then emit [pilot_afterburnOver] s1
               else s1)
        in (if val = KEY_PRESS then s2\<lparr>input_accelLast := t\<rparr> else s2))"

definition input_key_left :: "real \<Rightarrow> real \<Rightarrow> Input \<Rightarrow> Input" where
  "input_key_left val kabs s =
     (if kabs \<ge> 0 then
        (player_setFlag PLAYER_TURN_LEFT (emit [player_restoreControl PINPUT_MOVEMENT] s))
          \<lparr>player_left := kabs\<rparr>
      else if val = KEY_PRESS then
        (player_setFlag PLAYER_TURN_LEFT (emit [player_restoreControl PINPUT_MOVEMENT] s))
          \<lparr>player_left := 1\<rparr>
      else if val = KEY_RELEASE then
        (player_rmFlag PLAYER_TURN_LEFT s)\<lparr>player_left := 0\<rparr>
      else s)"

definition input_key_right :: "real \<Rightarrow> real \<Rightarrow> Input \<Rightarrow> Input" where
  "input_key_right val kabs s =
     (if kabs \<ge> 0 then
        (player_setFlag PLAYER_TURN_RIGHT (emit [player_restoreControl PINPUT_MOVEMENT] s))
          \<lparr>player_right := kabs\<rparr>
      else if val = KEY_PRESS then
        (player_setFlag PLAYER_TURN_RIGHT (emit [player_restoreControl PINPUT_MOVEMENT] s))
          \<lparr>player_right := 1\<rparr>
      else if val = KEY_RELEASE then
        (player_rmFlag PLAYER_TURN_RIGHT s)\<lparr>player_right := 0\<rparr>
      else s)"

definition input_key_reverse :: "real \<Rightarrow> Input \<Rightarrow> Input" where
  "input_key_reverse val s =
     (if val = KEY_PRESS then
        player_setFlag PLAYER_REVERSE (emit [player_restoreControl PINPUT_MOVEMENT] s)
      else if val = KEY_RELEASE \<and> player_isFlag PLAYER_REVERSE s then
        (let s1 = player_rmFlag PLAYER_REVERSE s
         in if \<not> player_isFlag PLAYER_ACCEL s1 then emit [player_accelOver] s1 else s1)
      else s)"

definition input_key_speed :: "real \<Rightarrow> Input \<Rightarrow> Input" where
  "input_key_speed val s =
     (if val = KEY_PRESS \<and> \<not> player_isFlag PLAYER_CINEMATICS_2X s then
        emit [player_resetSpeed]
          (if player_speed s < 4 then s\<lparr>player_speed := player_speed s * 2\<rparr>
           else s\<lparr>player_speed := 1\<rparr>)
      else s)"

text \<open>On a press, make the calls \<open>cs\<close>; otherwise nothing.\<close>

definition on_press :: "real \<Rightarrow> Cmd list \<Rightarrow> Input \<Rightarrow> Input" where
  "on_press val cs s = (if val = KEY_PRESS then emit cs s else s)"

text \<open>
  The chain of \<^verbatim>\<open>else if\<close> of \<^verbatim>\<open>input_key\<close>, branch by branch in the order of the
  source. \<open>k\<close> is \<^verbatim>\<open>input_keybinds[keynum].name\<close>, so \<^verbatim>\<open>KEY(s)\<close> is \<open>k = s\<close>. \<open>None\<close> is
  the final \<^verbatim>\<open>else\<close> (key press not used: return before the hook).
\<close>

definition input_key_chain ::
  "Conf \<Rightarrow> Env \<Rightarrow> 32 word \<Rightarrow> string \<Rightarrow> real \<Rightarrow> real \<Rightarrow> bool \<Rightarrow> Input \<Rightarrow> Input option"
where
  "input_key_chain c e now k val kabs rpt s =
    (if k = ''accel'' \<and> \<not> rpt then Some (input_key_accel c e now val kabs s)
     else if k = ''left'' \<and> \<not> rpt then Some (input_key_left val kabs s)
     else if k = ''right'' \<and> \<not> rpt then Some (input_key_right val kabs s)
     else if k = ''reverse'' \<and> \<not> rpt then Some (input_key_reverse val s)
     else if k = ''primary'' \<and> NODEAD e \<and> \<not> rpt then
       Some (if val = KEY_PRESS then player_setFlag PLAYER_PRIMARY s
             else if val = KEY_RELEASE then player_rmFlag PLAYER_PRIMARY s else s)
     else if INGAME e \<and> NODEAD e \<and> k = ''target_next'' then
       Some (on_press val [player_targetNext 0] s)
     else if INGAME e \<and> NODEAD e \<and> k = ''target_prev'' then
       Some (on_press val [player_targetPrev 0] s)
     else if INGAME e \<and> NODEAD e \<and> k = ''target_nearest'' then
       Some (on_press val [player_targetNearest] s)
     else if INGAME e \<and> NODEAD e \<and> k = ''target_nextHostile'' then
       Some (on_press val [player_targetNext 1] s)
     else if INGAME e \<and> NODEAD e \<and> k = ''target_prevHostile'' then
       Some (on_press val [player_targetPrev 1] s)
     else if INGAME e \<and> NODEAD e \<and> k = ''target_hostile'' then
       Some (on_press val [player_targetHostile] s)
     else if INGAME e \<and> NODEAD e \<and> k = ''target_clear'' then
       Some (on_press val [player_targetClear] s)
     else if INGAME e \<and> NODEAD e \<and> k = ''face'' \<and> \<not> rpt then
       Some (if val = KEY_PRESS then
               player_setFlag PLAYER_FACE (emit [player_restoreControl PINPUT_MOVEMENT] s)
             else if val = KEY_RELEASE \<and> player_isFlag PLAYER_FACE s then
               player_rmFlag PLAYER_FACE s
             else s)
     else if k = ''board'' \<and> INGAME e \<and> NOHYP e \<and> NODEAD e \<and> \<not> rpt then
       Some (on_press val [player_restoreControl PINPUT_NULL, player_board] s)
     else if INGAME e \<and> NODEAD e \<and> k = ''e_targetNext'' \<and> \<not> rpt then
       Some (on_press val [player_targetEscort 0] s)
     else if INGAME e \<and> NODEAD e \<and> k = ''e_targetPrev'' \<and> \<not> rpt then
       Some (on_press val [player_targetEscort 1] s)
     else if INGAME e \<and> NODEAD e \<and> k = ''e_attack'' \<and> \<not> rpt then
       Some (on_press val [escorts_attack] s)
     else if INGAME e \<and> NODEAD e \<and> k = ''e_hold'' \<and> \<not> rpt then
       Some (on_press val [escorts_hold] s)
     else if INGAME e \<and> NODEAD e \<and> k = ''e_return'' \<and> \<not> rpt then
       Some (on_press val [escorts_return] s)
     else if INGAME e \<and> NODEAD e \<and> k = ''e_clear'' \<and> \<not> rpt then
       Some (on_press val [escorts_clear] s)
     else if k = ''secondary'' \<and> NOHYP e \<and> NODEAD e \<and> \<not> rpt then
       Some (if val = KEY_PRESS then player_setFlag PLAYER_SECONDARY s
             else if val = KEY_RELEASE then player_rmFlag PLAYER_SECONDARY s else s)
     else if INGAME e \<and> NODEAD e \<and> k = ''weapset1'' then
       Some (emit [player_weapSetPress 0 val rpt] s)
     else if INGAME e \<and> NODEAD e \<and> k = ''weapset2'' then
       Some (emit [player_weapSetPress 1 val rpt] s)
     else if INGAME e \<and> NODEAD e \<and> k = ''weapset3'' then
       Some (emit [player_weapSetPress 2 val rpt] s)
     else if INGAME e \<and> NODEAD e \<and> k = ''weapset4'' then
       Some (emit [player_weapSetPress 3 val rpt] s)
     else if INGAME e \<and> NODEAD e \<and> k = ''weapset5'' then
       Some (emit [player_weapSetPress 4 val rpt] s)
     else if INGAME e \<and> NODEAD e \<and> k = ''weapset6'' then
       Some (emit [player_weapSetPress 5 val rpt] s)
     else if INGAME e \<and> NODEAD e \<and> k = ''weapset7'' then
       Some (emit [player_weapSetPress 6 val rpt] s)
     else if INGAME e \<and> NODEAD e \<and> k = ''weapset8'' then
       Some (emit [player_weapSetPress 7 val rpt] s)
     else if INGAME e \<and> NODEAD e \<and> k = ''weapset9'' then
       Some (emit [player_weapSetPress 8 val rpt] s)
     else if INGAME e \<and> NODEAD e \<and> k = ''weapset0'' then
       Some (emit [player_weapSetPress 9 val rpt] s)
     else if k = ''autonav'' \<and> NOHYP e \<and> NODEAD e then
       Some (if val = KEY_PRESS then
               (if map_isOpen e then emit [player_autonavStartWindow] s
                else if INGAME e then emit [player_autonavStart] s
                else s)
             else s)
     else if k = ''target_planet'' \<and> INGAME e \<and> NOHYP e \<and> NOLAND e \<and> NODEAD e then
       Some (on_press val [player_targetPlanet] s)
     else if k = ''land'' \<and> INGAME e \<and> NOHYP e \<and> NOLAND e \<and> NODEAD e then
       Some (on_press val [player_land] s)
     else if k = ''thyperspace'' \<and> NOHYP e \<and> NOLAND e \<and> NODEAD e then
       Some (on_press val [player_targetHyperspace] s)
     else if k = ''starmap'' \<and> NOHYP e \<and> NODEAD e \<and> \<not> rpt then
       Some (on_press val [map_open] s)
     else if k = ''jump'' \<and> INGAME e \<and> \<not> rpt then
       Some (on_press val [player_restoreControl PINPUT_NULL, player_jump] s)
     else if k = ''overlay'' \<and> NODEAD e \<and> INGAME e \<and> \<not> rpt then
       Some (emit [ovr_key val] s)
     else if k = ''mousefly'' \<and> NODEAD e \<and> \<not> rpt then
       Some (on_press val [player_toggleMouseFly] s)
     else if k = ''autobrake'' \<and> NOHYP e \<and> NOLAND e \<and> NODEAD e \<and> \<not> rpt then
       Some (on_press val [player_restoreControl PINPUT_BRAKING, player_brake] s)
     else if k = ''log_up'' \<and> INGAME e \<and> NODEAD e then
       Some (on_press val [gui_messageScrollUp 5] s)
     else if k = ''log_down'' \<and> INGAME e \<and> NODEAD e then
       Some (on_press val [gui_messageScrollDown 5] s)
     else if k = ''hail'' \<and> INGAME e \<and> NOHYP e \<and> NODEAD e \<and> \<not> rpt then
       Some (on_press val [player_hail] s)
     else if k = ''autohail'' \<and> INGAME e \<and> NOHYP e \<and> NODEAD e \<and> \<not> rpt then
       Some (on_press val [player_autohail] s)
     else if k = ''mapzoomin'' \<and> INGAME e \<and> NODEAD e then
       Some (on_press val [gui_setRadarRel (- 1)] s)
     else if k = ''mapzoomout'' \<and> INGAME e \<and> NODEAD e then
       Some (on_press val [gui_setRadarRel 1] s)
     else if k = ''screenshot'' then
       Some (on_press val [player_screenshot] s)
     else if k = ''togglefullscreen'' \<and> \<not> rpt then
       Some (on_press val [naev_toggleFullscreen] s)
     else if k = ''pause'' \<and> \<not> rpt then
       Some (if val = KEY_PRESS then
               (if \<not> toolkit_isOpen e then
                  (if paused e then emit [unpause_game] s else emit [pause_player] s)
                else s)
             else s)
     else if k = ''speed'' \<and> \<not> rpt then Some (input_key_speed val s)
     else if k = ''menu'' \<and> NODEAD e \<and> \<not> rpt then
       Some (on_press val [menu_small] s)
     else if k = ''info'' \<and> NOHYP e \<and> NODEAD e \<and> \<not> rpt then
       Some (on_press val [menu_info] s)
     else if k = ''console'' \<and> NODEAD e \<and> \<not> rpt then
       Some (on_press val [cli_open] s)
     else None)"

text \<open>The repetition block at the head of \<^verbatim>\<open>input_key\<close>.\<close>

definition input_key_repetition ::
  "Conf \<Rightarrow> 32 word \<Rightarrow> nat \<Rightarrow> real \<Rightarrow> bool \<Rightarrow> Input \<Rightarrow> Input"
where
  "input_key_repetition c now keynum val rpt s =
     (if repeat_delay c \<noteq> 0 then
        (if val = KEY_PRESS \<and> \<not> rpt then
           s\<lparr>repeat_key := int keynum, repeat_keyTimer := now, repeat_keyCounter := 0\<rparr>
         else if val = KEY_RELEASE then
           s\<lparr>repeat_key := - 1, repeat_keyTimer := 0, repeat_keyCounter := 0\<rparr>
         else s)
      else s)"

text \<open>
  \<^verbatim>\<open>input_key\<close>. The callers pass an index of the table as \<^verbatim>\<open>keynum\<close>. When a branch
  of the chain was taken, the ``input'' hook runs with the name and \<^verbatim>\<open>value > 0\<close>.
\<close>

definition input_key ::
  "Conf \<Rightarrow> Env \<Rightarrow> 32 word \<Rightarrow> nat \<Rightarrow> real \<Rightarrow> real \<Rightarrow> bool \<Rightarrow> Input \<Rightarrow> Input"
where
  "input_key c e now keynum val kabs rpt s =
     (let s1 = input_key_repetition c now keynum val rpt s;
          k = kb_name (input_keybinds s1 ! keynum)
      in case input_key_chain c e now k val kabs rpt s1 of
           None \<Rightarrow> s1
         | Some s2 \<Rightarrow> emit [hooks_runParam_input k (val > 0)] s2)"

text \<open>
  \<^verbatim>\<open>input_update\<close>, run once per frame: the mouse timer, then the key repeat. The sum
  \<^verbatim>\<open>repeat_keyTimer + conf.repeat_delay + repeat_keyCounter*conf.repeat_freq\<close> is
  unsigned 32-bit arithmetic.
\<close>

definition input_update_mouse :: "real \<Rightarrow> Input \<Rightarrow> Input" where
  "input_update_mouse dt s =
     (if input_mouseTimer s > 0 then
        (let s' = s\<lparr>input_mouseTimer := input_mouseTimer s - dt\<rparr>
         in if input_mouseTimer s' < 0 \<and> input_mouseCounter s' \<le> 0
            then emit [SDL_ShowCursor False] s' else s')
      else s)"


text \<open>
  \<^verbatim>\<open>input_translateMod\<close>. The \<^verbatim>\<open>KMOD_*\<close> bits are those of SDL's SDL_keycode.h.
\<close>

definition KMOD_LSHIFT :: SDL_Keymod where "KMOD_LSHIFT = 0x0001"
definition KMOD_RSHIFT :: SDL_Keymod where "KMOD_RSHIFT = 0x0002"
definition KMOD_LCTRL :: SDL_Keymod where "KMOD_LCTRL = 0x0040"
definition KMOD_RCTRL :: SDL_Keymod where "KMOD_RCTRL = 0x0080"
definition KMOD_LALT :: SDL_Keymod where "KMOD_LALT = 0x0100"
definition KMOD_RALT :: SDL_Keymod where "KMOD_RALT = 0x0200"
definition KMOD_LGUI :: SDL_Keymod where "KMOD_LGUI = 0x0400"
definition KMOD_RGUI :: SDL_Keymod where "KMOD_RGUI = 0x0800"

definition input_translateMod :: "SDL_Keymod \<Rightarrow> SDL_Keymod" where
  "input_translateMod m =
     (let f0 = (0 :: SDL_Keymod);
          f1 = (if m AND (KMOD_LSHIFT OR KMOD_RSHIFT) \<noteq> 0 then f0 OR NMOD_SHIFT else f0);
          f2 = (if m AND (KMOD_LCTRL OR KMOD_RCTRL) \<noteq> 0 then f1 OR NMOD_CTRL else f1);
          f3 = (if m AND (KMOD_LALT OR KMOD_RALT) \<noteq> 0 then f2 OR NMOD_ALT else f2);
          f4 = (if m AND (KMOD_LGUI OR KMOD_RGUI) \<noteq> 0 then f3 OR NMOD_META else f3)
      in f4)"

text \<open>
  \<^verbatim>\<open>input_keyevent\<close>: the body of the loop for the index \<open>i\<close>, and the loop over every
  index of the table (\<^verbatim>\<open>input_numbinds\<close> is the number of its entries). The int
  \<^verbatim>\<open>event\<close> is compared with the doubles \<^verbatim>\<open>KEY_PRESS\<close> and \<^verbatim>\<open>KEY_RELEASE\<close>.
\<close>

definition input_keyevent_body ::
  "Conf \<Rightarrow> Env \<Rightarrow> 32 word \<Rightarrow> int \<Rightarrow> SDL_Keycode \<Rightarrow> SDL_Keymod \<Rightarrow> bool \<Rightarrow> nat \<Rightarrow> Input \<Rightarrow> Input"
where
  "input_keyevent_body c e now event k mod_filtered rpt i s =
     (if real_of_int event = KEY_PRESS \<and> kb_disabled (input_keybinds s ! i) then s
      else if kb_type (input_keybinds s ! i) = KEYBIND_KEYBOARD
              \<and> kb_key (input_keybinds s ! i) = k then
        (if kb_mod (input_keybinds s ! i) = mod_filtered
            \<or> kb_mod (input_keybinds s ! i) = NMOD_ANY
            \<or> real_of_int event = KEY_RELEASE
         then input_key c e now i (real_of_int event) (- 1) rpt s
         else s)
      else s)"

definition input_keyevent ::
  "Conf \<Rightarrow> Env \<Rightarrow> 32 word \<Rightarrow> int \<Rightarrow> SDL_Keycode \<Rightarrow> SDL_Keymod \<Rightarrow> bool \<Rightarrow> Input \<Rightarrow> Input"
where
  "input_keyevent c e now event k m rpt s =
     (let mod_filtered = input_translateMod m
      in fold (input_keyevent_body c e now event k mod_filtered rpt)
           [0 ..< length (input_keybinds s)] s)"

text \<open>
  \<^verbatim>\<open>input_joyaxis\<close>: the body of the loop for the index \<open>i\<close> and the loop. \<open>None\<close> is the
  \<^verbatim>\<open>continue\<close> of a disabled binding on a press. The int \<^verbatim>\<open>k\<close> holds \<^verbatim>\<open>KEY_PRESS\<close> or
  \<^verbatim>\<open>KEY_RELEASE\<close>, and the absolute value is \<^verbatim>\<open>FABS(((double)value)/32767.)\<close>.
\<close>

definition input_joyaxis_body ::
  "Conf \<Rightarrow> Env \<Rightarrow> 32 word \<Rightarrow> SDL_Keycode \<Rightarrow> int \<Rightarrow> nat \<Rightarrow> Input \<Rightarrow> Input"
where
  "input_joyaxis_body c e now axis val i s =
     (if kb_key (input_keybinds s ! i) = axis then
        (case (if kb_type (input_keybinds s ! i) = KEYBIND_JAXISPOS \<and> val \<ge> 0 then
                 (let k = (if val > 0 then KEY_PRESS else KEY_RELEASE) in
                  if k = KEY_PRESS \<and> kb_disabled (input_keybinds s ! i) then None
                  else Some (input_key c e now i k \<bar>real_of_int val / 32767\<bar> False s))
               else Some s) of
           None \<Rightarrow> s
         | Some s1 \<Rightarrow>
             (if kb_type (input_keybinds s1 ! i) = KEYBIND_JAXISNEG \<and> val \<le> 0 then
                (let k = (if val < 0 then KEY_PRESS else KEY_RELEASE) in
                 if k = KEY_PRESS \<and> kb_disabled (input_keybinds s1 ! i) then s1
                 else input_key c e now i k \<bar>real_of_int val / 32767\<bar> False s1)
              else s1))
      else s)"

definition input_joyaxis ::
  "Conf \<Rightarrow> Env \<Rightarrow> 32 word \<Rightarrow> SDL_Keycode \<Rightarrow> int \<Rightarrow> Input \<Rightarrow> Input"
where
  "input_joyaxis c e now axis val s =
     fold (input_joyaxis_body c e now axis val) [0 ..< length (input_keybinds s)] s"

text \<open>\<^verbatim>\<open>input_joyevent\<close>, for a joystick button going down or up.\<close>

definition input_joyevent_body ::
  "Conf \<Rightarrow> Env \<Rightarrow> 32 word \<Rightarrow> int \<Rightarrow> SDL_Keycode \<Rightarrow> nat \<Rightarrow> Input \<Rightarrow> Input"
where
  "input_joyevent_body c e now event b i s =
     (if real_of_int event = KEY_PRESS \<and> kb_disabled (input_keybinds s ! i) then s
      else if kb_type (input_keybinds s ! i) = KEYBIND_JBUTTON
              \<and> kb_key (input_keybinds s ! i) = b
      then input_key c e now i (real_of_int event) (- 1) False s
      else s)"

definition input_joyevent ::
  "Conf \<Rightarrow> Env \<Rightarrow> 32 word \<Rightarrow> int \<Rightarrow> SDL_Keycode \<Rightarrow> Input \<Rightarrow> Input"
where
  "input_joyevent c e now event b s =
     fold (input_joyevent_body c e now event b) [0 ..< length (input_keybinds s)] s"

section \<open>Mouse clicks (input.c)\<close>

text \<open>
  What the click code reads of a pilot, a planet, a jump point and an asteroid. For the
  asteroid, \<open>ast_gfxs\<close> lists the width and height of the graphics of its type
  (\<^verbatim>\<open>at->gfxs\<close>), \<open>ast_gfxID\<close> is its index into them.
\<close>

record Pilot =
  pilot_pos_x :: real
  pilot_pos_y :: real
  pilot_sw :: real
  pilot_isDisabled :: bool
  PILOT_BOARDABLE :: bool

record Planet =
  pnt_name :: string
  pnt_radius :: real
  planet_isKnown :: bool
  pnt_faction :: int
  pnt_can_land :: bool
  pnt_bribed :: bool
  pnt_land_override :: int

record JumpPoint =
  jp_radius :: real
  jp_isUsable :: bool
  jp_target :: string

record Asteroid =
  ast_gfxID :: nat
  ast_gfxs :: "(real \<times> real) list"

text \<open>\<^verbatim>\<open>event->button\<close>: the button and the window position of the click.\<close>

record SDL_MouseButtonEvent =
  button :: int
  button_x :: int
  button_y :: int

text \<open>The button numbers of SDL's SDL_mouse.h.\<close>

definition SDL_BUTTON_LEFT :: int where "SDL_BUTTON_LEFT = 1"
definition SDL_BUTTON_MIDDLE :: int where "SDL_BUTTON_MIDDLE = 2"
definition SDL_BUTTON_RIGHT :: int where "SDL_BUTTON_RIGHT = 3"

text \<open>
  Modelled from the spec: the id \<^verbatim>\<open>PLAYER_ID\<close> of the controlled ship, of pilot.h, a
  header that is not among the sources. The click code uses it as ``no pilot''; the
  spec's nearest-pilot query excludes the controlled ship.
\<close>

definition PLAYER_ID :: nat where "PLAYER_ID = 1"

text \<open>
  The world as the click code sees it. The functions of other files that it calls to
  ask (none of them is among the sources) are fields, each taking the arguments that
  vary and returning what the C function returns and stores through its out-pointers:
  \<^item> \<open>pilot_getNearestAng ang\<close> is the id and the bearing of the pilot nearest by angle;
  \<^item> \<open>system_getClosestAng x y ang\<close> is the ids (planet, jump, asteroid, field; \<open>-1\<close> for
    none) and the bearing of the asset nearest by angle;
  \<^item> \<open>pilot_getNearestPos x y\<close> is the id and the squared distance of the nearest pilot;
  \<^item> \<open>system_getClosest x y\<close> is the ids and the squared distance of the nearest asset;
  \<^item> \<open>angle_diff\<close>, \<open>gl_windowToScreenPos\<close>, \<open>gl_screenToGameCoords\<close>,
    \<open>gui_radarClickEvent\<close>, \<open>cam_getZoom\<close> and \<open>space_canHyperspace\<close> are the functions
    of these names, and \<open>PILOT_SIZE_APROX\<close> is the constant of pilot.h;
  \<^item> \<open>double_mul a b\<close> is the product of the doubles \<open>a\<close> and \<open>b\<close> as the machine
    computes it, rounded to a double. It is used where the code cuts a product to an
    int, so that the rounding decides the result.
  The doubles are read as reals.
\<close>

record World =
  gl_screen_w :: int
  gl_screen_h :: int
  player_pos_x :: real
  player_pos_y :: real
  pilot_get :: "nat \<Rightarrow> Pilot"
  planets :: "int \<Rightarrow> Planet"
  jumps :: "int \<Rightarrow> JumpPoint"
  asteroids :: "int \<Rightarrow> int \<Rightarrow> Asteroid"
  pilot_getNearestAng :: "real \<Rightarrow> nat \<times> real"
  system_getClosestAng :: "real \<Rightarrow> real \<Rightarrow> real \<Rightarrow> (int \<times> int \<times> int \<times> int) \<times> real"
  pilot_getNearestPos :: "real \<Rightarrow> real \<Rightarrow> nat \<times> real"
  system_getClosest :: "real \<Rightarrow> real \<Rightarrow> (int \<times> int \<times> int \<times> int) \<times> real"
  angle_diff :: "real \<Rightarrow> real \<Rightarrow> real"
  gl_windowToScreenPos :: "int \<Rightarrow> int \<Rightarrow> int \<times> int"
  gl_screenToGameCoords :: "real \<Rightarrow> real \<Rightarrow> real \<times> real"
  gui_radarClickEvent :: "SDL_MouseButtonEvent \<Rightarrow> bool"
  cam_getZoom :: real
  space_canHyperspace :: bool
  PILOT_SIZE_APROX :: real
  double_mul :: "real \<Rightarrow> real \<Rightarrow> real"

text \<open>The C library's \<^verbatim>\<open>atan2\<close>, and the conversion of a double to an int (towards 0).\<close>

definition atan2 :: "real \<Rightarrow> real \<Rightarrow> real" where
  "atan2 y x =
     (if 0 < x then arctan (y / x)
      else if x < 0 \<and> 0 \<le> y then arctan (y / x) + pi
      else if x < 0 \<and> y < 0 then arctan (y / x) - pi
      else if 0 < y then pi / 2
      else if y < 0 then - (pi / 2)
      else 0)"

definition double_to_int :: "real \<Rightarrow> int" where
  "double_to_int x = (if 0 \<le> x then \<lfloor>x\<rfloor> else \<lceil>x\<rceil>)"

definition pow2 :: "real \<Rightarrow> real" where
  "pow2 x = x * x"

text \<open>
  \<^verbatim>\<open>input_clicked\<close> and \<^verbatim>\<open>input_isDoubleClick\<close>. \<open>now\<close> is \<^verbatim>\<open>SDL_GetTicks()\<close>; the
  threshold is the unsigned sum of the last click's tick and the int
  \<^verbatim>\<open>(int)(conf.mouse_doubleclick * 1000)\<close>, where the product is the machine's: the
  double nearest to it is what is cut to an int (for the double 0.3 that is 300, though
  the double itself lies below 0.3).
\<close>

definition input_clicked :: "Conf \<Rightarrow> 32 word \<Rightarrow> Entity \<Rightarrow> Input \<Rightarrow> Input" where
  "input_clicked c now clicked s =
     (if mouse_doubleclick c \<le> 0 then s
      else s\<lparr>input_lastClicked := Some clicked, input_mouseClickLast := now\<rparr>)"

definition input_isDoubleClick ::
  "Conf \<Rightarrow> World \<Rightarrow> 32 word \<Rightarrow> Entity \<Rightarrow> Input \<Rightarrow> bool"
where
  "input_isDoubleClick c w now clicked s =
     (if mouse_doubleclick c \<le> 0 then True
      else
        let threshold = input_mouseClickLast s
                          + word_of_int (double_to_int (double_mul w (mouse_doubleclick c) 1000))
        in (if now \<le> threshold \<and> Some clicked = input_lastClicked s then True else False))"

text \<open>
  The four \<^verbatim>\<open>input_clicked*\<close> handlers: the result is the returned int (whether the
  click was used) and the new state.
\<close>

definition input_clickedJump ::
  "Conf \<Rightarrow> Env \<Rightarrow> World \<Rightarrow> 32 word \<Rightarrow> int \<Rightarrow> bool \<Rightarrow> Input \<Rightarrow> bool \<times> Input"
where
  "input_clickedJump c e w now jump autonav s =
     (let jp = jumps w jump in
      if \<not> jp_isUsable jp then (False, s)
      else
        let s1 = (if nav_hyperspace e \<noteq> jump then emit [map_select (jp_target jp) 0] s else s)
        in if autonav then
             (True, emit [player_targetHyperspaceSet jump, player_autonavStart] s1)
           else
             let s2 =
                   (if jump = nav_hyperspace e \<and> input_isDoubleClick c w now (EJump jump) s1 then
                      (if space_canHyperspace w then emit [player_jump] s1 else s1)
                    else emit [player_targetHyperspaceSet jump] s1)
             in (True, input_clicked c now (EJump jump) s2))"

definition input_clickedPlanet ::
  "Conf \<Rightarrow> Env \<Rightarrow> World \<Rightarrow> 32 word \<Rightarrow> int \<Rightarrow> bool \<Rightarrow> Input \<Rightarrow> bool \<times> Input"
where
  "input_clickedPlanet c e w now planet autonav s =
     (let pnt = planets w planet in
      if \<not> planet_isKnown pnt then (False, s)
      else if autonav then
        (True, emit [player_targetPlanetSet planet, player_autonavPnt (pnt_name pnt)] s)
      else
        let s1 =
              (if planet = nav_planet e \<and> input_isDoubleClick c w now (EPlanet planet) s then
                 (if pnt_faction pnt < 0 \<or> pnt_can_land pnt \<or> pnt_bribed pnt
                     \<or> pnt_land_override pnt > 0
                  then emit [player_hyperspacePreempt 0, player_land] s
                  else emit [player_hyperspacePreempt 0, player_hailPlanet] s)
               else emit [player_targetPlanetSet planet] s)
        in (True, input_clicked c now (EPlanet planet) s1))"

definition input_clickedAsteroid ::
  "Conf \<Rightarrow> 32 word \<Rightarrow> int \<Rightarrow> int \<Rightarrow> Input \<Rightarrow> bool \<times> Input"
where
  "input_clickedAsteroid c now field asteroid s =
     (True, input_clicked c now (EAsteroid field asteroid)
              (emit [player_targetAsteroidSet field asteroid] s))"

definition input_clickedPilot ::
  "Conf \<Rightarrow> Env \<Rightarrow> World \<Rightarrow> 32 word \<Rightarrow> nat \<Rightarrow> bool \<Rightarrow> Input \<Rightarrow> bool \<times> Input"
where
  "input_clickedPilot c e w now pilot autonav s =
     (if pilot = PLAYER_ID then (False, s)
      else if autonav then
        (True, emit [player_targetSet pilot, player_autonavPil pilot] s)
      else
        let p = pilot_get w pilot;
            s1 =
              (if pilot = player_target e \<and> input_isDoubleClick c w now (EPilot pilot) s then
                 (if pilot_isDisabled p \<or> PILOT_BOARDABLE p
                  then emit [player_board] s
                  else emit [player_hail] s)
               else emit [player_targetSet pilot] s)
        in (True, input_clicked c now (EPilot pilot) s1))"

text \<open>
  \<^verbatim>\<open>input_clickPos\<close>, first half: the candidates that are left after the rejections.
  The result is the pilot id (\<^verbatim>\<open>PLAYER_ID\<close>: none), the ids of the asset (\<open>-1\<close>: none)
  and the warning of the asteroid branch, if any. With the right button the pilot
  candidate is the player's current target. \<^verbatim>\<open>MAX\<close> is \<open>max\<close>.
\<close>

definition input_clickPos_candidates ::
  "Env \<Rightarrow> World \<Rightarrow> SDL_MouseButtonEvent \<Rightarrow> real \<Rightarrow> real \<Rightarrow> real \<Rightarrow> real \<Rightarrow> real
     \<Rightarrow> (nat \<times> int \<times> int \<times> int \<times> int) \<times> Cmd list"
where
  "input_clickPos_candidates e w event x y zoom minpr minr =
     (let (pid0, dp) =
            (if button event = SDL_BUTTON_RIGHT then
               (let pid = player_target e; p = pilot_get w pid
                in (pid, pow2 (x - pilot_pos_x p) + pow2 (y - pilot_pos_y p)))
             else pilot_getNearestPos w x y);
          p = pilot_get w pid0;
          ((pntid0, jpid0, astid0, fieid0), d) = system_getClosest w x y;
          rp = max (1.5 * PILOT_SIZE_APROX w * pilot_sw p / 2 * zoom) minpr;
          (r, warn) =
            (if pntid0 \<ge> 0 then (max (1.5 * pnt_radius (planets w pntid0) * zoom) minr, [])
             else if jpid0 \<ge> 0 then (max (1.5 * jp_radius (jumps w jpid0) * zoom) minr, [])
             else if astid0 \<ge> 0 then
               (let ast = asteroids w fieid0 astid0;
                    g = ast_gfxs ast ! ast_gfxID ast
                in (max (max (fst g * zoom) minr) (snd g * zoom),
                    if ast_gfxID ast \<ge> length (ast_gfxs ast) then [WARN WARN_gfx_range]
                    else []))
             else (0, []));
          pid = (if dp > pow2 rp \<or> (d < pow2 r \<and> dp > d) then PLAYER_ID else pid0);
          ids = (if d > pow2 r then (- 1, - 1, - 1, - 1) else (pntid0, jpid0, astid0, fieid0))
      in ((pid, ids), warn))"

text \<open>
  \<^verbatim>\<open>input_clickPos\<close>, second half: the action. With the right button the calls are
  chained by \<^verbatim>\<open>&&\<close>: a handler runs only when its candidate is there, and a handler
  that returns 0 leaves the next one to run. The final test is
  \<^verbatim>\<open>pow2(x - px) + pow2(y - py) >= pow2(1500)\<close>.
\<close>

definition input_clickPos_right ::
  "Conf \<Rightarrow> Env \<Rightarrow> World \<Rightarrow> 32 word \<Rightarrow> real \<Rightarrow> real
     \<Rightarrow> (nat \<times> int \<times> int \<times> int \<times> int) \<Rightarrow> Input \<Rightarrow> bool \<times> Input"
where
  "input_clickPos_right c e w now x y cand s =
     (let (pid, pntid, jpid, astid, fieid) = cand;
          (r1, s1) = (if pid \<noteq> PLAYER_ID then input_clickedPilot c e w now pid True s
                      else (False, s))
      in if r1 then (True, s1)
         else
           let (r2, s2) = (if pntid \<ge> 0 then input_clickedPlanet c e w now pntid True s1
                           else (False, s1))
           in if r2 then (True, s2)
              else
                let (r3, s3) = (if jpid \<ge> 0 then input_clickedJump c e w now jpid True s2
                                else (False, s2))
                in if r3 then (True, s3)
                   else if pow2 (x - player_pos_x w) + pow2 (y - player_pos_y w) \<ge> pow2 1500
                   then (True, emit [player_autonavPos x y] s3)
                   else (True, s3))"

definition input_clickPos ::
  "Conf \<Rightarrow> Env \<Rightarrow> World \<Rightarrow> 32 word \<Rightarrow> SDL_MouseButtonEvent \<Rightarrow> real \<Rightarrow> real \<Rightarrow> real \<Rightarrow> real
     \<Rightarrow> real \<Rightarrow> Input \<Rightarrow> bool \<times> Input"
where
  "input_clickPos c e w now event x y zoom minpr minr s =
     (let (cand, warn) = input_clickPos_candidates e w event x y zoom minpr minr;
          (pid, pntid, jpid, astid, fieid) = cand;
          s0 = emit warn s
      in if button event = SDL_BUTTON_LEFT then
           (if pid \<noteq> PLAYER_ID then input_clickedPilot c e w now pid False s0
            else if pntid \<ge> 0 then input_clickedPlanet c e w now pntid False s0
            else if jpid \<ge> 0 then input_clickedJump c e w now jpid False s0
            else if astid \<ge> 0 then input_clickedAsteroid c now fieid astid s0
            else (False, s0))
         else if button event = SDL_BUTTON_RIGHT then
           input_clickPos_right c e w now x y cand s0
         else (False, s0))"

text \<open>
  \<^verbatim>\<open>input_clickevent\<close>. The block for a click on the border of the screen: the
  candidates by angle after the two rejections (\<^verbatim>\<open>ABS\<close> is the absolute value, \<^verbatim>\<open>M_PI\<close>
  is \<open>pi\<close>), and the action; \<open>False\<close> is falling through to the normal click.
\<close>

definition input_clickevent_border_candidates ::
  "World \<Rightarrow> int \<Rightarrow> int \<Rightarrow> nat \<times> int \<times> int \<times> int \<times> int"
where
  "input_clickevent_border_candidates w mx my =
     (let px = player_pos_x w; py = player_pos_y w;
          x = (real_of_int mx - real_of_int (gl_screen_w w) / 2) + px;
          y = (real_of_int my - real_of_int (gl_screen_h w) / 2) + py;
          mouseang = atan2 (py - y) (px - x);
          (pid0, angp) = pilot_getNearestAng w mouseang;
          ((pntid0, jpid0, astid0, fieid0), ang) = system_getClosestAng w x y mouseang;
          pid = (if \<bar>angle_diff w mouseang angp\<bar> > pi / 64
                    \<or> \<bar>angle_diff w mouseang ang\<bar> < \<bar>angle_diff w mouseang angp\<bar>
                 then PLAYER_ID else pid0);
          ids = (if \<bar>angle_diff w mouseang ang\<bar> > pi / 64 then (- 1, - 1, - 1, - 1)
                 else (pntid0, jpid0, astid0, fieid0))
      in (pid, ids))"

definition input_clickevent_border ::
  "Conf \<Rightarrow> Env \<Rightarrow> World \<Rightarrow> 32 word \<Rightarrow> bool \<Rightarrow> int \<Rightarrow> int \<Rightarrow> Input \<Rightarrow> bool \<times> Input"
where
  "input_clickevent_border c e w now autonav mx my s =
     (let (pid, pntid, jpid, astid, fieid) = input_clickevent_border_candidates w mx my
      in if pid \<noteq> PLAYER_ID then input_clickedPilot c e w now pid autonav s
         else if pntid \<ge> 0 then input_clickedPlanet c e w now pntid autonav s
         else if jpid \<ge> 0 then input_clickedJump c e w now jpid autonav s
         else if astid \<ge> 0 then input_clickedAsteroid c now fieid astid s
         else (False, s))"

text \<open>
  The normal click: the radar, then the click on the screen. \<^verbatim>\<open>res\<close> is an int, so
  \<^verbatim>\<open>zoom = res = 1. / cam_getZoom()\<close> stores the quotient cut to an int in both.
\<close>

definition input_clickevent_normal ::
  "Conf \<Rightarrow> Env \<Rightarrow> World \<Rightarrow> 32 word \<Rightarrow> SDL_MouseButtonEvent \<Rightarrow> int \<Rightarrow> int \<Rightarrow> Input \<Rightarrow> Input"
where
  "input_clickevent_normal c e w now event mx my s =
     (if gui_radarClickEvent w event then s
      else
        let (x, y) = gl_screenToGameCoords w (real_of_int mx) (real_of_int my);
            res = double_to_int (1 / cam_getZoom w);
            zoom = real_of_int res
        in snd (input_clickPos c e w now event x y zoom (10 * real_of_int res)
                  (15 * real_of_int res) s))"

definition input_clickevent ::
  "Conf \<Rightarrow> Env \<Rightarrow> World \<Rightarrow> 32 word \<Rightarrow> SDL_MouseButtonEvent \<Rightarrow> Input \<Rightarrow> Input"
where
  "input_clickevent c e w now event s =
     (let s0 = emit [hooks_runParam_mouse (button event)] s in
      if \<not> player_p e \<or> player_isFlag PLAYER_DESTROYED s0 then s0
      else if PILOT_DEAD e then s0
      else if button event = SDL_BUTTON_MIDDLE then emit [player_toggleMouseFly] s0
      else if button event \<noteq> SDL_BUTTON_LEFT \<and> button event \<noteq> SDL_BUTTON_RIGHT then s0
      else
        let autonav = (button event = SDL_BUTTON_RIGHT);
            (mx, my) = gl_windowToScreenPos w (button_x event) (button_y event)
        in if (mx \<le> 15 \<or> my \<le> 15) \<or> (my \<ge> gl_screen_h w - 15 \<or> mx \<ge> gl_screen_w w - 15)
           then
             (case input_clickevent_border c e w now autonav mx my s0 of
                (True, s1) \<Rightarrow> s1
              | (False, s1) \<Rightarrow> input_clickevent_normal c e w now event mx my s1)
           else input_clickevent_normal c e w now event mx my s0)"

text \<open>
  A left click that resolved to the entity \<open>ent\<close>: the handler \<^verbatim>\<open>input_clickPos\<close> calls
  for it, with \<^verbatim>\<open>autonav\<close> 0. A run of such clicks on one entity makes one call per tick
  of the list.
\<close>

definition input_leftClicked ::
  "Conf \<Rightarrow> Env \<Rightarrow> World \<Rightarrow> 32 word \<Rightarrow> Entity \<Rightarrow> Input \<Rightarrow> bool \<times> Input"
where
  "input_leftClicked c e w now ent s =
     (case ent of
        EPilot pilot \<Rightarrow> input_clickedPilot c e w now pilot False s
      | EPlanet planet \<Rightarrow> input_clickedPlanet c e w now planet False s
      | EJump jump \<Rightarrow> input_clickedJump c e w now jump False s
      | EAsteroid field asteroid \<Rightarrow> input_clickedAsteroid c now field asteroid s)"

fun input_leftClicked_run ::
  "Conf \<Rightarrow> Env \<Rightarrow> World \<Rightarrow> Entity \<Rightarrow> 32 word list \<Rightarrow> Input \<Rightarrow> Input"
where
  "input_leftClicked_run c e w ent [] s = s"
| "input_leftClicked_run c e w ent (t # ts) s =
     input_leftClicked_run c e w ent ts (snd (input_leftClicked c e w t ent s))"

text \<open>
  The double-click threshold in milliseconds, as the code computes it, and what ``the
  click at tick \<open>t2\<close> comes within the threshold of the click at tick \<open>t1\<close>'' means on
  ticks: the ticks do not go back and the gap is at most the threshold.
  \<open>threshold_no_wrap\<close> says that the int conversion is defined and that the unsigned sum
  \<^verbatim>\<open>input_mouseClickLast + threshold\<close> stays below \<open>2 ^ 32\<close>. In a chain of clicks each
  click comes within the threshold of the one before it.
\<close>

definition doubleclick_ms :: "Conf \<Rightarrow> World \<Rightarrow> int" where
  "doubleclick_ms c w = double_to_int (double_mul w (mouse_doubleclick c) 1000)"

definition threshold_no_wrap :: "Conf \<Rightarrow> World \<Rightarrow> 32 word \<Rightarrow> bool" where
  "threshold_no_wrap c w t1 \<longleftrightarrow>
     0 \<le> doubleclick_ms c w \<and> doubleclick_ms c w < 2 ^ 31 \<and>
     uint t1 + doubleclick_ms c w < 2 ^ 32"

definition within_doubleclick :: "Conf \<Rightarrow> World \<Rightarrow> 32 word \<Rightarrow> 32 word \<Rightarrow> bool" where
  "within_doubleclick c w t1 t2 \<longleftrightarrow>
     uint t1 \<le> uint t2 \<and> uint t2 - uint t1 \<le> doubleclick_ms c w"

fun clicks_chained :: "Conf \<Rightarrow> World \<Rightarrow> 32 word \<Rightarrow> 32 word list \<Rightarrow> bool" where
  "clicks_chained c w t [] = True"
| "clicks_chained c w t (t' # ts) =
     (threshold_no_wrap c w t \<and> within_doubleclick c w t t' \<and> clicks_chained c w t' ts)"

section \<open>Ship statistics (shipstats.h)\<close>

text \<open>The enum \<^verbatim>\<open>ShipStatsType\<close> and an entry of the list \<^verbatim>\<open>ShipStatList\<close>, as declared
  in shipstats.h; the union \<^verbatim>\<open>d\<close> is read as a double (\<open>ssl_d\<close>) or an int (\<open>ssl_i\<close>), and
  the \<^verbatim>\<open>next\<close> pointers make the list.\<close>

datatype ShipStatsType =
    SS_TYPE_NIL
  | SS_TYPE_D_SPEED_MOD
  | SS_TYPE_D_TURN_MOD
  | SS_TYPE_D_THRUST_MOD
  | SS_TYPE_D_CARGO_MOD
  | SS_TYPE_D_ARMOUR_MOD
  | SS_TYPE_D_ARMOUR_REGEN_MOD
  | SS_TYPE_D_SHIELD_MOD
  | SS_TYPE_D_SHIELD_REGEN_MOD
  | SS_TYPE_D_ENERGY_MOD
  | SS_TYPE_D_ENERGY_REGEN_MOD
  | SS_TYPE_D_CPU_MOD
  | SS_TYPE_D_JUMP_DELAY
  | SS_TYPE_D_LAND_DELAY
  | SS_TYPE_D_CARGO_INERTIA
  | SS_TYPE_D_EW_HIDE
  | SS_TYPE_D_EW_DETECT
  | SS_TYPE_D_EW_JUMPDETECT
  | SS_TYPE_D_LAUNCH_RATE
  | SS_TYPE_D_LAUNCH_RANGE
  | SS_TYPE_D_LAUNCH_DAMAGE
  | SS_TYPE_D_AMMO_CAPACITY
  | SS_TYPE_D_LAUNCH_LOCKON
  | SS_TYPE_D_LAUNCH_RELOAD
  | SS_TYPE_D_FBAY_DAMAGE
  | SS_TYPE_D_FBAY_HEALTH
  | SS_TYPE_D_FBAY_MOVEMENT
  | SS_TYPE_D_FBAY_CAPACITY
  | SS_TYPE_D_FBAY_RATE
  | SS_TYPE_D_FBAY_RELOAD
  | SS_TYPE_D_FORWARD_HEAT
  | SS_TYPE_D_FORWARD_DAMAGE
  | SS_TYPE_D_FORWARD_FIRERATE
  | SS_TYPE_D_FORWARD_ENERGY
  | SS_TYPE_D_FORWARD_DAMAGE_AS_DISABLE
  | SS_TYPE_D_TURRET_HEAT
  | SS_TYPE_D_TURRET_DAMAGE
  | SS_TYPE_D_TURRET_TRACKING
  | SS_TYPE_D_TURRET_FIRERATE
  | SS_TYPE_D_TURRET_ENERGY
  | SS_TYPE_D_TURRET_DAMAGE_AS_DISABLE
  | SS_TYPE_D_NEBULA_ABSORB_SHIELD
  | SS_TYPE_D_NEBULA_ABSORB_ARMOUR
  | SS_TYPE_D_HEAT_DISSIPATION
  | SS_TYPE_D_STRESS_DISSIPATION
  | SS_TYPE_D_CREW
  | SS_TYPE_D_MASS
  | SS_TYPE_D_ENGINE_LIMIT_REL
  | SS_TYPE_D_LOOT_MOD
  | SS_TYPE_D_TIME_MOD
  | SS_TYPE_D_TIME_SPEEDUP
  | SS_TYPE_A_ENERGY_FLAT
  | SS_TYPE_A_ENERGY_REGEN_FLAT
  | SS_TYPE_A_SHIELD_FLAT
  | SS_TYPE_A_SHIELD_REGEN_FLAT
  | SS_TYPE_A_ARMOUR_FLAT
  | SS_TYPE_A_ARMOUR_REGEN_FLAT
  | SS_TYPE_A_CPU_MAX
  | SS_TYPE_A_ENGINE_LIMIT
  | SS_TYPE_I_HIDDEN_JUMP_DETECT
  | SS_TYPE_B_INSTANT_JUMP
  | SS_TYPE_B_REVERSE_THRUST
  | SS_TYPE_B_ASTEROID_SCAN
  | SS_TYPE_SENTINEL

record ShipStatList =
  ssl_target :: int
  ssl_type :: ShipStatsType
  ssl_d :: real
  ssl_i :: int

text \<open>
  The four kinds of a type, told by the letter in its name as the header's comment says
  (D: double, A: absolute double, I: integer, B: boolean); \<^verbatim>\<open>SS_TYPE_NIL\<close> and the
  sentinel have none.
\<close>

datatype ShipStatsKind = RelativeDouble | AbsoluteDouble | IntegerStat | BooleanStat

definition ss_relative_types :: "ShipStatsType list" where
  "ss_relative_types =
     [SS_TYPE_D_SPEED_MOD, SS_TYPE_D_TURN_MOD, SS_TYPE_D_THRUST_MOD,
      SS_TYPE_D_CARGO_MOD, SS_TYPE_D_ARMOUR_MOD, SS_TYPE_D_ARMOUR_REGEN_MOD,
      SS_TYPE_D_SHIELD_MOD, SS_TYPE_D_SHIELD_REGEN_MOD, SS_TYPE_D_ENERGY_MOD,
      SS_TYPE_D_ENERGY_REGEN_MOD, SS_TYPE_D_CPU_MOD, SS_TYPE_D_JUMP_DELAY,
      SS_TYPE_D_LAND_DELAY, SS_TYPE_D_CARGO_INERTIA, SS_TYPE_D_EW_HIDE,
      SS_TYPE_D_EW_DETECT, SS_TYPE_D_EW_JUMPDETECT, SS_TYPE_D_LAUNCH_RATE,
      SS_TYPE_D_LAUNCH_RANGE, SS_TYPE_D_LAUNCH_DAMAGE, SS_TYPE_D_AMMO_CAPACITY,
      SS_TYPE_D_LAUNCH_LOCKON, SS_TYPE_D_LAUNCH_RELOAD, SS_TYPE_D_FBAY_DAMAGE,
      SS_TYPE_D_FBAY_HEALTH, SS_TYPE_D_FBAY_MOVEMENT, SS_TYPE_D_FBAY_CAPACITY,
      SS_TYPE_D_FBAY_RATE, SS_TYPE_D_FBAY_RELOAD, SS_TYPE_D_FORWARD_HEAT,
      SS_TYPE_D_FORWARD_DAMAGE, SS_TYPE_D_FORWARD_FIRERATE, SS_TYPE_D_FORWARD_ENERGY,
      SS_TYPE_D_FORWARD_DAMAGE_AS_DISABLE, SS_TYPE_D_TURRET_HEAT,
      SS_TYPE_D_TURRET_DAMAGE, SS_TYPE_D_TURRET_TRACKING, SS_TYPE_D_TURRET_FIRERATE,
      SS_TYPE_D_TURRET_ENERGY, SS_TYPE_D_TURRET_DAMAGE_AS_DISABLE,
      SS_TYPE_D_NEBULA_ABSORB_SHIELD, SS_TYPE_D_NEBULA_ABSORB_ARMOUR,
      SS_TYPE_D_HEAT_DISSIPATION, SS_TYPE_D_STRESS_DISSIPATION, SS_TYPE_D_CREW,
      SS_TYPE_D_MASS, SS_TYPE_D_ENGINE_LIMIT_REL, SS_TYPE_D_LOOT_MOD,
      SS_TYPE_D_TIME_MOD, SS_TYPE_D_TIME_SPEEDUP]"

definition ss_absolute_types :: "ShipStatsType list" where
  "ss_absolute_types =
     [SS_TYPE_A_ENERGY_FLAT, SS_TYPE_A_ENERGY_REGEN_FLAT, SS_TYPE_A_SHIELD_FLAT,
      SS_TYPE_A_SHIELD_REGEN_FLAT, SS_TYPE_A_ARMOUR_FLAT,
      SS_TYPE_A_ARMOUR_REGEN_FLAT, SS_TYPE_A_CPU_MAX, SS_TYPE_A_ENGINE_LIMIT]"

definition ss_integer_types :: "ShipStatsType list" where
  "ss_integer_types = [SS_TYPE_I_HIDDEN_JUMP_DETECT]"

definition ss_boolean_types :: "ShipStatsType list" where
  "ss_boolean_types = [SS_TYPE_B_INSTANT_JUMP, SS_TYPE_B_REVERSE_THRUST, SS_TYPE_B_ASTEROID_SCAN]"

definition ss_kind :: "ShipStatsType \<Rightarrow> ShipStatsKind option" where
  "ss_kind t =
     (if t \<in> set ss_relative_types then Some RelativeDouble
      else if t \<in> set ss_absolute_types then Some AbsoluteDouble
      else if t \<in> set ss_integer_types then Some IntegerStat
      else if t \<in> set ss_boolean_types then Some BooleanStat
      else None)"

text \<open>
  Modelled from the spec: the aggregate \<^verbatim>\<open>ShipStats\<close> with one field per stat type.
  shipstats.c, which holds the table from a type to its field and the functions below,
  is not among the sources; a field is addressed by its type here, the double fields in
  \<open>ss_double\<close> and the int fields in \<open>ss_int\<close>. The doubles are read as reals.
\<close>

record ShipStats =
  ss_double :: "ShipStatsType \<Rightarrow> real"
  ss_int :: "ShipStatsType \<Rightarrow> int"

text \<open>
  Modelled from the spec: \<^verbatim>\<open>ss_statsInit\<close> sets every relative-double field to the
  multiplicative identity 1.0, absolute fields to 0.0, booleans and integers to 0.
\<close>

definition ss_statsInit :: ShipStats where
  "ss_statsInit =
     \<lparr>ss_double = (\<lambda>t. if ss_kind t = Some RelativeDouble then 1 else 0),
      ss_int = (\<lambda>t. 0)\<rparr>"

text \<open>
  Modelled from the spec: \<^verbatim>\<open>ss_statsModSingle\<close> applies one entry scaled by the amount:
  a relative-double entry does \<^verbatim>\<open>stats.field *= (1 + entry.value * amountFactor)\<close>, an
  absolute or integer entry adds \<^verbatim>\<open>entry.value * amountFactor\<close>, a boolean entry ORs in
  \<^verbatim>\<open>entry.value != 0\<close>. The header passes the amount as a \<^verbatim>\<open>ShipStats\<close>; the parameter
  here is the factor the spec takes from it.
\<close>

definition ss_statsModSingle :: "ShipStats \<Rightarrow> ShipStatList \<Rightarrow> real \<Rightarrow> ShipStats" where
  "ss_statsModSingle stats entry amountFactor =
     (let t = ssl_type entry in
      case ss_kind t of
        Some RelativeDouble \<Rightarrow>
          stats\<lparr>ss_double := (ss_double stats)
                   (t := ss_double stats t * (1 + ssl_d entry * amountFactor))\<rparr>
      | Some AbsoluteDouble \<Rightarrow>
          stats\<lparr>ss_double := (ss_double stats)
                   (t := ss_double stats t + ssl_d entry * amountFactor)\<rparr>
      | Some IntegerStat \<Rightarrow>
          stats\<lparr>ss_int := (ss_int stats)
                   (t := ss_int stats t
                           + double_to_int (real_of_int (ssl_i entry) * amountFactor))\<rparr>
      | Some BooleanStat \<Rightarrow>
          stats\<lparr>ss_int := (ss_int stats)
                   (t := (if ss_int stats t \<noteq> 0 \<or> ssl_i entry \<noteq> 0 then 1 else 0))\<rparr>
      | None \<Rightarrow> stats)"

text \<open>
  Modelled from the spec: \<^verbatim>\<open>ss_statsModFromList\<close> folds every entry of the list through
  \<^verbatim>\<open>ss_statsModSingle\<close>, in list order.
\<close>

fun ss_statsModFromList :: "ShipStats \<Rightarrow> ShipStatList list \<Rightarrow> real \<Rightarrow> ShipStats" where
  "ss_statsModFromList stats [] amountFactor = stats"
| "ss_statsModFromList stats (entry # list) amountFactor =
     ss_statsModFromList (ss_statsModSingle stats entry amountFactor) list amountFactor"

section \<open>Example inputs\<close>

text \<open>
  The state of input.c at start-up (the initial values of its static variables) over a
  given table, a configuration, a player in flight, and a small table in which four
  bindings share the key \<open>t\<close>.
\<close>

definition input_start :: "Keybind list \<Rightarrow> Input" where
  "input_start kbs =
     \<lparr>input_keybinds = kbs, input_accelLast = 0, input_accelButton = 0,
      repeat_key = - 1, repeat_keyTimer = 0, repeat_keyCounter = 0,
      input_mouseTimer = - 1, input_mouseCounter = 1,
      input_mouseClickLast = 0, input_lastClicked = None,
      player_flags = {}, player_left = 0, player_right = 0, player_speed = 1,
      trace = []\<rparr>"

definition example_conf :: Conf where
  "example_conf = \<lparr>repeat_delay = 500, repeat_freq = 30, afterburn_sens = 250,
                    mouse_doubleclick = 1 / 2\<rparr>"

definition example_env :: Env where
  "example_env =
     \<lparr>toolkit_isOpen = False, map_isOpen = False, player_p = True,
      PILOT_HYP_PREP = False, PILOT_HYP_BEGIN = False, PILOT_HYPERSPACE = False,
      PILOT_DEAD = False, PILOT_LANDING = False, landed = False, paused = False,
      player_target = 5, nav_planet = 2, nav_hyperspace = 0\<rparr>"

definition example_keybinds :: "Keybind list" where
  "example_keybinds =
     [\<lparr>kb_disabled = False, kb_name = ''accel'', kb_type = KEYBIND_KEYBOARD,
       kb_key = 119, kb_mod = NMOD_ANY\<rparr>,
      \<lparr>kb_disabled = False, kb_name = ''target_next'', kb_type = KEYBIND_KEYBOARD,
       kb_key = 116, kb_mod = NMOD_NONE\<rparr>,
      \<lparr>kb_disabled = False, kb_name = ''target_prev'', kb_type = KEYBIND_KEYBOARD,
       kb_key = 116, kb_mod = NMOD_CTRL\<rparr>,
      \<lparr>kb_disabled = False, kb_name = ''target_nearest'', kb_type = KEYBIND_KEYBOARD,
       kb_key = 116, kb_mod = NMOD_ANY\<rparr>,
      \<lparr>kb_disabled = True, kb_name = ''target_hostile'', kb_type = KEYBIND_KEYBOARD,
       kb_key = 116, kb_mod = NMOD_CTRL\<rparr>]"

text \<open>
  A world for a click on the border of the screen. The screen is 800 by 600 at zoom 1,
  the player at the origin. Pilot 5 is a large ship just off the left edge, at
  \<open>(-500, -50)\<close>, which is about 0.1 rad off the bearing of a click at the middle of the
  left edge; there is no asset in the system (the asset queries return no id, the
  bearing \<open>pi\<close> and an empty squared distance). \<open>angle_diff\<close> is the plain
  difference, which is right for angles this close, and \<open>double_mul\<close> the plain
  product, which is what the machine gives for \<open>0.5 * 1000\<close>.
\<close>

definition example_pilot :: Pilot where
  "example_pilot =
     \<lparr>pilot_pos_x = - 500, pilot_pos_y = - 50, pilot_sw = 200,
      pilot_isDisabled = False, PILOT_BOARDABLE = False\<rparr>"

definition example_planet :: Planet where
  "example_planet =
     \<lparr>pnt_name = ''Em 1'', pnt_radius = 100, planet_isKnown = True, pnt_faction = 1,
      pnt_can_land = True, pnt_bribed = False, pnt_land_override = 0\<rparr>"

definition example_jump :: JumpPoint where
  "example_jump = \<lparr>jp_radius = 50, jp_isUsable = True, jp_target = ''Alteris''\<rparr>"

definition example_asteroid :: Asteroid where
  "example_asteroid = \<lparr>ast_gfxID = 0, ast_gfxs = [(20, 20)]\<rparr>"

definition example_world :: World where
  "example_world =
     \<lparr>gl_screen_w = 800, gl_screen_h = 600,
      player_pos_x = 0, player_pos_y = 0,
      pilot_get = (\<lambda>pid. example_pilot),
      planets = (\<lambda>i. example_planet),
      jumps = (\<lambda>i. example_jump),
      asteroids = (\<lambda>f a. example_asteroid),
      pilot_getNearestAng = (\<lambda>ang. (5, 1 / 10)),
      system_getClosestAng = (\<lambda>x y ang. ((- 1, - 1, - 1, - 1), pi)),
      pilot_getNearestPos = (\<lambda>x y. (5, pow2 (x + 500) + pow2 (y + 50))),
      system_getClosest = (\<lambda>x y. ((- 1, - 1, - 1, - 1), 10 ^ 12)),
      angle_diff = (\<lambda>ref a. a - ref),
      gl_windowToScreenPos = (\<lambda>x y. (x, y)),
      gl_screenToGameCoords = (\<lambda>mx my. (mx - 400, my - 300)),
      gui_radarClickEvent = (\<lambda>event. False),
      cam_getZoom = 1,
      space_canHyperspace = True,
      PILOT_SIZE_APROX = 8 / 10,
      double_mul = (\<lambda>a b. a * b)\<rparr>"

definition example_click :: "int \<Rightarrow> int \<Rightarrow> int \<Rightarrow> SDL_MouseButtonEvent" where
  "example_click b x y = \<lparr>button = b, button_x = x, button_y = y\<rparr>"

text \<open>
  Two more worlds with the spec's tie-break examples. In the first the nearest pilot by
  angle is 0.01 rad off the bearing of the click and planet 2, the nearest asset, 0.02
  rad off; no pilot is anywhere near the clicked position. In the second the pilot is
  0.1 rad off, above \<open>pi / 64\<close>, and the planet 0.02 rad off; the pilot is within its
  radius of the clicked position, as in \<open>example_world\<close>.
\<close>

definition example_world_near :: World where
  "example_world_near =
     example_world\<lparr>pilot_getNearestAng := (\<lambda>ang. (5, 1 / 100)),
                   system_getClosestAng := (\<lambda>x y ang. ((2, - 1, - 1, - 1), 2 / 100)),
                   pilot_getNearestPos := (\<lambda>x y. (5, 10 ^ 12))\<rparr>"

definition example_world_asset :: World where
  "example_world_asset =
     example_world\<lparr>system_getClosestAng := (\<lambda>x y ang. ((2, - 1, - 1, - 1), 2 / 100))\<rparr>"

section \<open>Properties of the keybinding table\<close>

lemma setKeybind_loop_None:
  "setKeybind_loop keybind ty k m kbs = None \<longleftrightarrow> keybind \<notin> kb_name ` set kbs"
  by (induction kbs) auto

lemma getKeybind_loop_None:
  "getKeybind_loop keybind kbs = None \<longleftrightarrow> keybind \<notin> kb_name ` set kbs"
  by (induction kbs) auto

lemma getKeybind_after_set:
  "setKeybind_loop keybind ty k m kbs = Some kbs' \<Longrightarrow>
   \<exists>b. getKeybind_loop keybind kbs' = Some b \<and> kb_type b = ty \<and> kb_key b = k \<and>
       kb_mod b = (if ty = KEYBIND_KEYBOARD then m else NMOD_ANY)"
  by (induction kbs arbitrary: kbs') (auto split: if_splits)

lemma keybind_info_mem_init: "kb_name ` set input_init = set keybind_info"
  by (simp add: input_init_def image_image)

text \<open>The table has \<^verbatim>\<open>input_numbinds\<close> entries from \<^verbatim>\<open>input_init\<close> on: rebinding keeps
  its length.\<close>

lemma input_init_length: "length input_init = input_numbinds"
  by (simp add: input_init_def input_numbinds_def)

lemma setKeybind_loop_length:
  "setKeybind_loop keybind ty k m kbs = Some kbs' \<Longrightarrow> length kbs' = length kbs"
  by (induction kbs arbitrary: kbs') (auto split: if_splits)

lemma input_setKeybind_length:
  "length (fst (input_setKeybind keybind ty k m kbs)) = length kbs"
  by (auto simp add: input_setKeybind_def setKeybind_loop_length split: option.splits)

text \<open>
  C2, as the code has it: for every name of the table, \<^verbatim>\<open>input_setKeybind\<close> followed by
  \<^verbatim>\<open>input_getKeybind\<close> gives back the kind and the key, and the mask that was stored: the
  given mask for a keyboard binding, and \<^verbatim>\<open>NMOD_ANY\<close> for every other kind. Neither call
  warns.
\<close>

theorem setKeybind_getKeybind_roundtrip:
  assumes "keybind \<in> kb_name ` set kbs"
  shows "input_getKeybind keybind (fst (input_setKeybind keybind ty k m kbs)) =
           (k, Some (ty, if ty = KEYBIND_KEYBOARD then m else NMOD_ANY), [])
         \<and> snd (input_setKeybind keybind ty k m kbs) = []"
proof -
  from assms obtain kbs' where s: "setKeybind_loop keybind ty k m kbs = Some kbs'"
    using setKeybind_loop_None [of keybind ty k m kbs] by auto
  from getKeybind_after_set [OF s] obtain b where
    "getKeybind_loop keybind kbs' = Some b" "kb_type b = ty" "kb_key b = k"
    "kb_mod b = (if ty = KEYBIND_KEYBOARD then m else NMOD_ANY)"
    by blast
  with s show ?thesis
    by (simp add: input_setKeybind_def input_getKeybind_def)
qed

theorem setKeybind_getKeybind_roundtrip_witness:
  "''accel'' \<in> kb_name ` set input_init \<and>
   input_getKeybind ''accel''
       (fst (input_setKeybind ''accel'' KEYBIND_KEYBOARD 119 NMOD_CTRL input_init)) =
     (119, Some (KEYBIND_KEYBOARD, NMOD_CTRL), [])"
proof -
  have h: "''accel'' \<in> kb_name ` set input_init"
    by (simp add: keybind_info_mem_init keybind_info_def)
  show ?thesis
    using h setKeybind_getKeybind_roundtrip [OF h, of KEYBIND_KEYBOARD 119 NMOD_CTRL]
    by simp
qed

text \<open>
  C2 as the spec states it fails: binding ``accel'' to joystick button 3 with the mask
  \<^verbatim>\<open>NMOD_NONE\<close> reads back the mask \<^verbatim>\<open>NMOD_ANY\<close>.
\<close>

theorem setKeybind_getKeybind_counterexample:
  "''accel'' \<in> kb_name ` set input_init \<and>
   input_getKeybind ''accel''
       (fst (input_setKeybind ''accel'' KEYBIND_JBUTTON 3 NMOD_NONE input_init))
     \<noteq> (3, Some (KEYBIND_JBUTTON, NMOD_NONE), [])"
  by (simp add: input_init_def keybind_info_def input_setKeybind_def input_getKeybind_def
      NMOD_ANY_def NMOD_NONE_def)

text \<open>
  C8: for a name that is not in the table, \<^verbatim>\<open>input_setKeybind\<close> leaves every binding as
  it was and writes one warning; \<^verbatim>\<open>input_getKeybind\<close> (which takes the table and returns
  no new one: it cannot change it) writes one warning, stores nothing through its
  out-pointers and returns the sentinel \<^verbatim>\<open>(SDL_Keycode)-1\<close>.
\<close>

theorem unknown_keybind_reported:
  assumes "keybind \<notin> kb_name ` set kbs"
  shows "input_setKeybind keybind ty k m kbs = (kbs, [WARN_set_unknown keybind])
         \<and> input_getKeybind keybind kbs = (- 1, None, [WARN_get_unknown keybind])"
  using assms setKeybind_loop_None [of keybind ty k m kbs] getKeybind_loop_None [of keybind kbs]
  by (simp add: input_setKeybind_def input_getKeybind_def)

theorem unknown_keybind_reported_witness:
  "''warp'' \<notin> kb_name ` set input_init \<and>
   input_setKeybind ''warp'' KEYBIND_KEYBOARD 119 NMOD_NONE input_init
     = (input_init, [WARN_set_unknown ''warp'']) \<and>
   input_getKeybind ''warp'' input_init = (- 1, None, [WARN_get_unknown ''warp''])"
proof -
  have h: "''warp'' \<notin> kb_name ` set input_init"
    by (simp add: keybind_info_mem_init keybind_info_def)
  show ?thesis
    using h unknown_keybind_reported [OF h, of KEYBIND_KEYBOARD 119 NMOD_NONE]
    by simp
qed

section \<open>Properties of the dispatcher\<close>

lemma emit_fields [simp]:
  "input_keybinds (emit cs s) = input_keybinds s"
  "repeat_key (emit cs s) = repeat_key s"
  "repeat_keyTimer (emit cs s) = repeat_keyTimer s"
  "repeat_keyCounter (emit cs s) = repeat_keyCounter s"
  "input_accelLast (emit cs s) = input_accelLast s"
  "input_mouseClickLast (emit cs s) = input_mouseClickLast s"
  "input_lastClicked (emit cs s) = input_lastClicked s"
  "player_flags (emit cs s) = player_flags s"
  "trace (emit cs s) = trace s @ cs"
  by (simp_all add: emit_def)

lemma player_setFlag_fields [simp]:
  "input_keybinds (player_setFlag f s) = input_keybinds s"
  "repeat_key (player_setFlag f s) = repeat_key s"
  "repeat_keyTimer (player_setFlag f s) = repeat_keyTimer s"
  "repeat_keyCounter (player_setFlag f s) = repeat_keyCounter s"
  "input_accelLast (player_setFlag f s) = input_accelLast s"
  "trace (player_setFlag f s) = trace s"
  by (simp_all add: player_setFlag_def)

lemma player_rmFlag_fields [simp]:
  "input_keybinds (player_rmFlag f s) = input_keybinds s"
  "repeat_key (player_rmFlag f s) = repeat_key s"
  "repeat_keyTimer (player_rmFlag f s) = repeat_keyTimer s"
  "repeat_keyCounter (player_rmFlag f s) = repeat_keyCounter s"
  "input_accelLast (player_rmFlag f s) = input_accelLast s"
  "trace (player_rmFlag f s) = trace s"
  by (simp_all add: player_rmFlag_def)

lemma on_press_fields [simp]:
  "input_keybinds (on_press v cs s) = input_keybinds s"
  "repeat_key (on_press v cs s) = repeat_key s"
  "repeat_keyTimer (on_press v cs s) = repeat_keyTimer s"
  "repeat_keyCounter (on_press v cs s) = repeat_keyCounter s"
  by (simp_all add: on_press_def)

lemma input_key_accel_fields [simp]:
  "input_keybinds (input_key_accel c e now v kabs s) = input_keybinds s"
  "repeat_key (input_key_accel c e now v kabs s) = repeat_key s"
  "repeat_keyTimer (input_key_accel c e now v kabs s) = repeat_keyTimer s"
  "repeat_keyCounter (input_key_accel c e now v kabs s) = repeat_keyCounter s"
  by (simp_all add: input_key_accel_def Let_def)

lemma input_key_left_fields [simp]:
  "input_keybinds (input_key_left v kabs s) = input_keybinds s"
  "repeat_key (input_key_left v kabs s) = repeat_key s"
  "repeat_keyTimer (input_key_left v kabs s) = repeat_keyTimer s"
  "repeat_keyCounter (input_key_left v kabs s) = repeat_keyCounter s"
  by (simp_all add: input_key_left_def)

lemma input_key_right_fields [simp]:
  "input_keybinds (input_key_right v kabs s) = input_keybinds s"
  "repeat_key (input_key_right v kabs s) = repeat_key s"
  "repeat_keyTimer (input_key_right v kabs s) = repeat_keyTimer s"
  "repeat_keyCounter (input_key_right v kabs s) = repeat_keyCounter s"
  by (simp_all add: input_key_right_def)

lemma input_key_reverse_fields [simp]:
  "input_keybinds (input_key_reverse v s) = input_keybinds s"
  "repeat_key (input_key_reverse v s) = repeat_key s"
  "repeat_keyTimer (input_key_reverse v s) = repeat_keyTimer s"
  "repeat_keyCounter (input_key_reverse v s) = repeat_keyCounter s"
  by (simp_all add: input_key_reverse_def Let_def)

lemma input_key_speed_fields [simp]:
  "input_keybinds (input_key_speed v s) = input_keybinds s"
  "repeat_key (input_key_speed v s) = repeat_key s"
  "repeat_keyTimer (input_key_speed v s) = repeat_keyTimer s"
  "repeat_keyCounter (input_key_speed v s) = repeat_keyCounter s"
  by (simp_all add: input_key_speed_def)

lemma input_key_chain_fields_aux:
  "(case input_key_chain c e now k v kabs rpt s of
      None \<Rightarrow> True
    | Some s' \<Rightarrow> input_keybinds s' = input_keybinds s \<and> repeat_key s' = repeat_key s \<and>
         repeat_keyTimer s' = repeat_keyTimer s \<and> repeat_keyCounter s' = repeat_keyCounter s)"
  unfolding input_key_chain_def by simp

lemma input_key_chain_fields:
  assumes "input_key_chain c e now k v kabs rpt s = Some s'"
  shows "input_keybinds s' = input_keybinds s \<and> repeat_key s' = repeat_key s \<and>
         repeat_keyTimer s' = repeat_keyTimer s \<and> repeat_keyCounter s' = repeat_keyCounter s"
  using input_key_chain_fields_aux [where s = s and c = c and e = e and now = now and k = k and v = v and kabs = kabs and rpt = rpt] assms by simp

lemma input_key_repetition_keybinds [simp]:
  "input_keybinds (input_key_repetition c now keynum v rpt s) = input_keybinds s"
  by (simp add: input_key_repetition_def)

lemma input_key_keybinds:
  "input_keybinds (input_key c e now keynum v kabs rpt s) = input_keybinds s"
  by (auto simp: input_key_def Let_def split: option.splits dest: input_key_chain_fields)

lemma input_keyevent_body_keybinds:
  "input_keybinds (input_keyevent_body c e now ev k m rpt i s) = input_keybinds s"
  by (simp add: input_keyevent_body_def input_key_keybinds)

lemma keyevent_fold:
  "fold (input_keyevent_body c e now ev k m rpt) is s =
   fold (\<lambda>i. input_key c e now i (real_of_int ev) (- 1) rpt)
     (filter (\<lambda>i. \<not> (real_of_int ev = KEY_PRESS \<and> kb_disabled (input_keybinds s ! i)) \<and>
                  kb_type (input_keybinds s ! i) = KEYBIND_KEYBOARD \<and>
                  kb_key (input_keybinds s ! i) = k \<and>
                  (kb_mod (input_keybinds s ! i) = m \<or>
                   kb_mod (input_keybinds s ! i) = NMOD_ANY \<or>
                   real_of_int ev = KEY_RELEASE)) is) s"
proof -
  define P where "P = (\<lambda>(kbs :: Keybind list) i.
      \<not> (real_of_int ev = KEY_PRESS \<and> kb_disabled (kbs ! i)) \<and>
      kb_type (kbs ! i) = KEYBIND_KEYBOARD \<and> kb_key (kbs ! i) = k \<and>
      (kb_mod (kbs ! i) = m \<or> kb_mod (kbs ! i) = NMOD_ANY \<or> real_of_int ev = KEY_RELEASE))"
  define call where "call = (\<lambda>i. input_key c e now i (real_of_int ev) (- 1) rpt)"
  have "fold (input_keyevent_body c e now ev k m rpt) is s =
        fold call (filter (P (input_keybinds s)) is) s"
  proof (induction "is" arbitrary: s)
    case Nil
    show ?case by simp
  next
    case (Cons i "is")
    let ?s' = "input_keyevent_body c e now ev k m rpt i s"
    have kb: "input_keybinds ?s' = input_keybinds s"
      by (rule input_keyevent_body_keybinds)
    have step: "?s' = (if P (input_keybinds s) i then call i s else s)"
      unfolding input_keyevent_body_def P_def call_def
      by (cases "real_of_int ev = KEY_PRESS") auto
    have "fold (input_keyevent_body c e now ev k m rpt) (i # is) s =
          fold (input_keyevent_body c e now ev k m rpt) is ?s'"
      by simp
    also have "\<dots> = fold call (filter (P (input_keybinds s)) is) ?s'"
      using Cons.IH [of ?s'] by (simp only: kb)
    also have "\<dots> = fold call (filter (P (input_keybinds s)) (i # is)) s"
      by (simp add: step)
    finally show ?case .
  qed
  then show ?thesis
    by (simp only: P_def call_def)
qed

text \<open>
  C3: a keyboard event on the key \<open>k\<close> with the raw modifiers \<open>m\<close> dispatches
  \<^verbatim>\<open>input_key(i, event, -1., repeat)\<close> for exactly the indices \<open>i\<close> whose binding is of
  kind Keyboard, has the key \<open>k\<close> and has either the translated mask, or the mask
  \<^verbatim>\<open>NMOD_ANY\<close>, or the event is a release; a disabled binding is left out on a press
  only. All of them are dispatched, in the order of the table.
\<close>

theorem keyevent_fires_exactly:
  "input_keyevent c e now ev k m rpt s =
   fold (\<lambda>i. input_key c e now i (real_of_int ev) (- 1) rpt)
     (filter (\<lambda>i. \<not> (real_of_int ev = KEY_PRESS \<and> kb_disabled (input_keybinds s ! i)) \<and>
                  kb_type (input_keybinds s ! i) = KEYBIND_KEYBOARD \<and>
                  kb_key (input_keybinds s ! i) = k \<and>
                  (kb_mod (input_keybinds s ! i) = input_translateMod m \<or>
                   kb_mod (input_keybinds s ! i) = NMOD_ANY \<or>
                   real_of_int ev = KEY_RELEASE))
        [0 ..< length (input_keybinds s)]) s"
  by (simp add: input_keyevent_def Let_def keyevent_fold)

lemma translate_lctrl: "input_translateMod KMOD_LCTRL = NMOD_CTRL"
  by (simp add: input_translateMod_def KMOD_LCTRL_def KMOD_LSHIFT_def KMOD_RSHIFT_def KMOD_RCTRL_def
    KMOD_LALT_def KMOD_RALT_def KMOD_LGUI_def KMOD_RGUI_def NMOD_CTRL_def NMOD_SHIFT_def NMOD_ALT_def NMOD_META_def)

theorem keyevent_fires_exactly_witness:
  "input_keyevent example_conf example_env 1000 1 116 KMOD_LCTRL False
       (input_start example_keybinds) =
     fold (\<lambda>i. input_key example_conf example_env 1000 i (real_of_int 1) (- 1) False) [2, 3]
       (input_start example_keybinds) \<and>
   input_keyevent example_conf example_env 1000 (- 1) 116 KMOD_LCTRL False
       (input_start example_keybinds) =
     fold (\<lambda>i. input_key example_conf example_env 1000 i (real_of_int (- 1)) (- 1) False)
       [1, 2, 3, 4] (input_start example_keybinds)"
proof -
  have idx: "[0 ..< length example_keybinds] = [0, 1, 2, 3, 4]"
    by (simp add: example_keybinds_def)
  have kbs: "input_keybinds (input_start example_keybinds) = example_keybinds"
    by (simp add: input_start_def)
  show ?thesis
    using keyevent_fires_exactly [of example_conf example_env 1000 1 116 KMOD_LCTRL False
        "input_start example_keybinds"]
      keyevent_fires_exactly [of example_conf example_env 1000 "- 1" 116 KMOD_LCTRL False
        "input_start example_keybinds"]
    unfolding kbs idx
    by (simp add: translate_lctrl example_keybinds_def KEY_PRESS_def KEY_RELEASE_def
        NMOD_ANY_def NMOD_CTRL_def NMOD_NONE_def)
qed

lemma key_consts [simp]: "KEY_PRESS \<noteq> KEY_RELEASE" "KEY_RELEASE \<noteq> KEY_PRESS"
  "0 < KEY_PRESS" "\<not> 0 < KEY_RELEASE"
  by (simp_all add: KEY_PRESS_def KEY_RELEASE_def)

lemma input_key_repetition_fields [simp]:
  "input_accelLast (input_key_repetition c now keynum v rpt s) = input_accelLast s"
  "trace (input_key_repetition c now keynum v rpt s) = trace s"
  "player_flags (input_key_repetition c now keynum v rpt s) = player_flags s"
  by (simp_all add: input_key_repetition_def)

lemma input_key_accel_eq:
  assumes "kb_name (input_keybinds s ! keynum) = ''accel''"
  shows "input_key c e now keynum v kabs False s =
         emit [hooks_runParam_input ''accel'' (v > 0)]
           (input_key_accel c e now v kabs (input_key_repetition c now keynum v False s))"
  using assms by (simp add: input_key_def input_key_chain_def Let_def)

text \<open>
  C1, as the code has it. For a digital (\<open>kabs < 0\<close>), non-repeat event of the binding
  named ``accel'': a press that comes within \<^verbatim>\<open>conf.afterburn_sens\<close> ticks of the recorded
  time of the last accel press, with a nonzero \<^verbatim>\<open>afterburn_sens\<close>, in game, not
  hyperspacing and not dead, starts the afterburner in addition to the plain
  acceleration (control restored, \<^verbatim>\<open>PLAYER_ACCEL\<close> set, throttle 1); every such press
  records its time; every such release ends the acceleration and stops the afterburner,
  and keeps the recorded time.
\<close>

theorem accel_double_tap:
  assumes "kb_name (input_keybinds s ! keynum) = ''accel''" and "kabs < 0"
  shows "(afterburn_sens c \<noteq> 0 \<and> INGAME e \<and> NOHYP e \<and> NODEAD e \<and>
            now - input_accelLast s \<le> afterburn_sens c \<longrightarrow>
          trace (input_key c e now keynum KEY_PRESS kabs False s) =
            trace s @ [player_restoreControl PINPUT_MOVEMENT, player_accel 1, pilot_afterburn,
                       hooks_runParam_input ''accel'' True]) \<and>
         PLAYER_ACCEL \<in> player_flags (input_key c e now keynum KEY_PRESS kabs False s) \<and>
         input_accelLast (input_key c e now keynum KEY_PRESS kabs False s) = now \<and>
         trace (input_key c e now keynum KEY_RELEASE kabs False s) =
            trace s @ [player_accelOver, pilot_afterburnOver,
                       hooks_runParam_input ''accel'' False] \<and>
         input_accelLast (input_key c e now keynum KEY_RELEASE kabs False s) = input_accelLast s"
  using assms(2)
  by (simp add: input_key_accel_eq [OF assms(1)] input_key_accel_def Let_def player_setFlag_def)


lemma example_tap_state:
  "input_key example_conf example_env 1100 0 KEY_RELEASE (- 1) False
     (input_key example_conf example_env 1000 0 KEY_PRESS (- 1) False
        (input_start example_keybinds)) =
   (input_start example_keybinds)
     \<lparr>input_accelLast := 1000, input_accelButton := 0,
      trace := [player_restoreControl PINPUT_MOVEMENT, player_accel 1,
                hooks_runParam_input ''accel'' True,
                player_accelOver, pilot_afterburnOver, hooks_runParam_input ''accel'' False]\<rparr>"
  by (simp add: input_key_def input_key_chain_def input_key_accel_def input_key_repetition_def
      Let_def input_start_def example_keybinds_def example_conf_def example_env_def
      emit_def player_setFlag_def player_rmFlag_def INGAME_def NOHYP_def NODEAD_def)

lemma example_axis_table:
  "fst (input_setKeybind ''accel'' KEYBIND_JAXISPOS 1 NMOD_NONE example_keybinds) =
     [\<lparr>kb_disabled = False, kb_name = ''accel'', kb_type = KEYBIND_JAXISPOS,
       kb_key = 1, kb_mod = NMOD_ANY\<rparr>,
      \<lparr>kb_disabled = False, kb_name = ''target_next'', kb_type = KEYBIND_KEYBOARD,
       kb_key = 116, kb_mod = NMOD_NONE\<rparr>,
      \<lparr>kb_disabled = False, kb_name = ''target_prev'', kb_type = KEYBIND_KEYBOARD,
       kb_key = 116, kb_mod = NMOD_CTRL\<rparr>,
      \<lparr>kb_disabled = False, kb_name = ''target_nearest'', kb_type = KEYBIND_KEYBOARD,
       kb_key = 116, kb_mod = NMOD_ANY\<rparr>,
      \<lparr>kb_disabled = True, kb_name = ''target_hostile'', kb_type = KEYBIND_KEYBOARD,
       kb_key = 116, kb_mod = NMOD_CTRL\<rparr>]"
  by (simp add: input_setKeybind_def example_keybinds_def)

lemma example_axis_release:
  "trace (input_joyaxis example_conf example_env 1100 1 0
     (input_start (fst (input_setKeybind ''accel'' KEYBIND_JAXISPOS 1 NMOD_NONE
                          example_keybinds)))) =
   [player_restoreControl PINPUT_MOVEMENT, player_accel 0,
    hooks_runParam_input ''accel'' False]"
proof -
  define kbs where
    "kbs = fst (input_setKeybind ''accel'' KEYBIND_JAXISPOS 1 NMOD_NONE example_keybinds)"
  have tab: "kbs ! 0 = \<lparr>kb_disabled = False, kb_name = ''accel'', kb_type = KEYBIND_JAXISPOS,
       kb_key = 1, kb_mod = NMOD_ANY\<rparr>"
    "kb_key (kbs ! Suc 0) = 116" "kb_key (kbs ! 2) = 116" "kb_key (kbs ! 3) = 116"
    "kb_key (kbs ! 4) = 116"
    unfolding kbs_def example_axis_table by simp_all
  have idx: "[0 ..< length kbs] = [0, 1, 2, 3, 4]"
    unfolding kbs_def example_axis_table by simp
  have kb0: "input_keybinds (input_start kbs) = kbs"
    by (simp add: input_start_def)
  have k0: "kb_name (input_keybinds (input_start kbs) ! 0) = ''accel''"
    by (simp add: kb0 tab)
  let ?s1 = "input_key example_conf example_env 1100 0 KEY_RELEASE 0 False (input_start kbs)"
  have kb1: "input_keybinds ?s1 = kbs"
    by (simp add: input_key_keybinds kb0)
  have b0: "input_joyaxis_body example_conf example_env 1100 1 0 0 (input_start kbs) = ?s1"
    by (simp add: input_joyaxis_body_def kb0 kb1 tab Let_def)
  have other: "input_joyaxis_body example_conf example_env 1100 1 0 i ?s1 = ?s1"
    if "i = Suc 0 \<or> i = 2 \<or> i = 3 \<or> i = 4" for i
    using that by (auto simp add: input_joyaxis_body_def kb1 tab)
  have "input_joyaxis example_conf example_env 1100 1 0 (input_start kbs) = ?s1"
    unfolding input_joyaxis_def kb0 idx
    by (simp add: b0 other)
  then have "trace (input_joyaxis example_conf example_env 1100 1 0 (input_start kbs)) =
    [player_restoreControl PINPUT_MOVEMENT, player_accel 0,
     hooks_runParam_input ''accel'' False]"
    unfolding input_key_accel_eq [OF k0]
    by (simp add: input_key_accel_def input_start_def)
  then show ?thesis
    by (simp only: kbs_def)
qed

text \<open>
  C1 as the spec states it fails, with a window of 250 ticks. After a press at tick 1000
  and a release at 1100, the press at 1200 starts the afterburner, and it also makes the
  calls of the plain acceleration: \<^verbatim>\<open>player_accel(1.)\<close> comes before \<^verbatim>\<open>pilot_afterburn\<close>
  in the trace. An analog release (\<open>kabs = 0\<close>, as a joystick axis back at rest sends it)
  sets the throttle and does not call \<^verbatim>\<open>pilot_afterburnOver\<close>. With
  \<^verbatim>\<open>conf.afterburn_sens = 0\<close> a second press in the same tick starts no afterburner.
\<close>

theorem accel_double_tap_counterexample:
  "trace (input_key example_conf example_env 1200 0 KEY_PRESS (- 1) False
     (input_key example_conf example_env 1100 0 KEY_RELEASE (- 1) False
       (input_key example_conf example_env 1000 0 KEY_PRESS (- 1) False
          (input_start example_keybinds)))) =
   [player_restoreControl PINPUT_MOVEMENT, player_accel 1, hooks_runParam_input ''accel'' True,
    player_accelOver, pilot_afterburnOver, hooks_runParam_input ''accel'' False,
    player_restoreControl PINPUT_MOVEMENT, player_accel 1, pilot_afterburn,
    hooks_runParam_input ''accel'' True] \<and>
   trace (input_key example_conf example_env 1100 0 KEY_RELEASE 0 False
     (input_start example_keybinds)) =
   [player_restoreControl PINPUT_MOVEMENT, player_accel 0,
    hooks_runParam_input ''accel'' False] \<and>
   trace (input_joyaxis example_conf example_env 1100 1 0
     (input_start (fst (input_setKeybind ''accel'' KEYBIND_JAXISPOS 1 NMOD_NONE
                          example_keybinds)))) =
   [player_restoreControl PINPUT_MOVEMENT, player_accel 0,
    hooks_runParam_input ''accel'' False] \<and>
   trace (input_key (example_conf\<lparr>afterburn_sens := 0\<rparr>) example_env 1000 0 KEY_PRESS (- 1) False
     (input_key (example_conf\<lparr>afterburn_sens := 0\<rparr>) example_env 1000 0 KEY_PRESS (- 1) False
        (input_start example_keybinds))) =
   [player_restoreControl PINPUT_MOVEMENT, player_accel 1, hooks_runParam_input ''accel'' True,
    player_restoreControl PINPUT_MOVEMENT, player_accel 1, hooks_runParam_input ''accel'' True]"
proof -
  have k: "kb_name (input_keybinds s ! 0) = ''accel''"
    if "input_keybinds s = example_keybinds" for s
    using that by (simp add: example_keybinds_def)
  have k0: "kb_name (input_keybinds (input_start example_keybinds) ! 0) = ''accel''"
    by (rule k) (simp add: input_start_def)
  have a: "trace (input_key example_conf example_env 1200 0 KEY_PRESS (- 1) False
     (input_key example_conf example_env 1100 0 KEY_RELEASE (- 1) False
       (input_key example_conf example_env 1000 0 KEY_PRESS (- 1) False
          (input_start example_keybinds)))) =
   [player_restoreControl PINPUT_MOVEMENT, player_accel 1, hooks_runParam_input ''accel'' True,
    player_accelOver, pilot_afterburnOver, hooks_runParam_input ''accel'' False,
    player_restoreControl PINPUT_MOVEMENT, player_accel 1, pilot_afterburn,
    hooks_runParam_input ''accel'' True]"
    unfolding example_tap_state
    by (simp add: input_key_def input_key_chain_def input_key_accel_def input_key_repetition_def
      Let_def input_start_def example_keybinds_def example_conf_def example_env_def
      emit_def player_setFlag_def player_rmFlag_def INGAME_def NOHYP_def NODEAD_def)
  have b: "trace (input_key example_conf example_env 1100 0 KEY_RELEASE 0 False
     (input_start example_keybinds)) =
   [player_restoreControl PINPUT_MOVEMENT, player_accel 0,
    hooks_runParam_input ''accel'' False]"
    unfolding input_key_accel_eq [OF k0]
    by (simp add: input_key_accel_def input_start_def)
  have j: "trace (input_joyaxis example_conf example_env 1100 1 0
     (input_start (fst (input_setKeybind ''accel'' KEYBIND_JAXISPOS 1 NMOD_NONE
                          example_keybinds)))) =
   [player_restoreControl PINPUT_MOVEMENT, player_accel 0,
    hooks_runParam_input ''accel'' False]"
    by (simp add: example_axis_release)
  let ?c = "example_conf\<lparr>afterburn_sens := 0\<rparr>"
  let ?s1 = "input_key ?c example_env 1000 0 KEY_PRESS (- 1) False (input_start example_keybinds)"
  have c: "trace (input_key ?c example_env 1000 0 KEY_PRESS (- 1) False ?s1) =
   [player_restoreControl PINPUT_MOVEMENT, player_accel 1, hooks_runParam_input ''accel'' True,
    player_restoreControl PINPUT_MOVEMENT, player_accel 1, hooks_runParam_input ''accel'' True]"
    by (simp add: input_key_def input_key_chain_def input_key_accel_def input_key_repetition_def
      Let_def input_start_def example_keybinds_def example_conf_def example_env_def
      emit_def player_setFlag_def player_rmFlag_def INGAME_def NOHYP_def NODEAD_def)
  from a b j c show ?thesis by simp
qed

theorem accel_double_tap_witness:
  "kb_name (input_keybinds
      (input_key example_conf example_env 1100 0 KEY_RELEASE (- 1) False
        (input_key example_conf example_env 1000 0 KEY_PRESS (- 1) False
          (input_start example_keybinds))) ! 0) = ''accel'' \<and>
   (- 1 :: real) < 0 \<and>
   afterburn_sens example_conf \<noteq> 0 \<and> INGAME example_env \<and> NOHYP example_env \<and>
   NODEAD example_env \<and>
   1200 - input_accelLast
      (input_key example_conf example_env 1100 0 KEY_RELEASE (- 1) False
        (input_key example_conf example_env 1000 0 KEY_PRESS (- 1) False
          (input_start example_keybinds))) \<le> afterburn_sens example_conf \<and>
   trace (input_key example_conf example_env 1200 0 KEY_PRESS (- 1) False
      (input_key example_conf example_env 1100 0 KEY_RELEASE (- 1) False
        (input_key example_conf example_env 1000 0 KEY_PRESS (- 1) False
          (input_start example_keybinds)))) =
   trace (input_key example_conf example_env 1100 0 KEY_RELEASE (- 1) False
        (input_key example_conf example_env 1000 0 KEY_PRESS (- 1) False
          (input_start example_keybinds))) @
     [player_restoreControl PINPUT_MOVEMENT, player_accel 1, pilot_afterburn,
      hooks_runParam_input ''accel'' True]"
proof -
  let ?s = "input_key example_conf example_env 1100 0 KEY_RELEASE (- 1) False
        (input_key example_conf example_env 1000 0 KEY_PRESS (- 1) False
          (input_start example_keybinds))"
  have h1: "kb_name (input_keybinds ?s ! 0) = ''accel''"
    by (simp add: input_key_keybinds input_start_def example_keybinds_def)
  have h2: "(- 1 :: real) < 0" by simp
  have h3: "afterburn_sens example_conf \<noteq> 0 \<and> INGAME example_env \<and> NOHYP example_env \<and>
     NODEAD example_env \<and> 1200 - input_accelLast ?s \<le> afterburn_sens example_conf"
    unfolding example_tap_state
    by (simp add: example_conf_def example_env_def INGAME_def NOHYP_def NODEAD_def input_start_def)
  from accel_double_tap [OF h1 h2, of example_conf example_env 1200] h1 h2 h3
  show ?thesis by blast
qed




lemma input_update_mouse_fields [simp]:
  "repeat_key (input_update_mouse dt s) = repeat_key s"
  "repeat_keyTimer (input_update_mouse dt s) = repeat_keyTimer s"
  "repeat_keyCounter (input_update_mouse dt s) = repeat_keyCounter s"
  "input_keybinds (input_update_mouse dt s) = input_keybinds s"
  by (simp_all add: input_update_mouse_def Let_def)




section \<open>Properties of the click handling\<close>

lemma input_clicked_fields [simp]:
  "trace (input_clicked c now ent s) = trace s"
  "input_keybinds (input_clicked c now ent s) = input_keybinds s"
  by (simp_all add: input_clicked_def)

lemma input_clicked_record:
  "mouse_doubleclick c > 0 \<Longrightarrow>
     input_lastClicked (input_clicked c now ent s) = Some ent \<and>
     input_mouseClickLast (input_clicked c now ent s) = now"
  by (simp add: input_clicked_def)

lemma threshold_uint:
  assumes "threshold_no_wrap c w t1"
  shows "uint (t1 + word_of_int (double_to_int (double_mul w (mouse_doubleclick c) 1000))
               :: 32 word) = uint t1 + doubleclick_ms c w"
proof -
  let ?m = "doubleclick_ms c w"
  have m0: "0 \<le> ?m" and lt: "uint t1 + ?m < 2 ^ 32"
    using assms by (simp_all add: threshold_no_wrap_def)
  have "uint (t1 + word_of_int ?m :: 32 word) = (uint t1 + ?m) mod 2 ^ 32"
    by (simp add: uint_word_ariths uint_word_of_int mod_simps)
  also have "\<dots> = uint t1 + ?m"
    using m0 lt by (simp add: mod_pos_pos_trivial)
  finally show ?thesis by (simp add: doubleclick_ms_def)
qed

lemma isDoubleClick_iff:
  assumes "mouse_doubleclick c > 0" and "threshold_no_wrap c w (input_mouseClickLast s)"
  shows "input_isDoubleClick c w t2 ent s \<longleftrightarrow>
         uint t2 \<le> uint (input_mouseClickLast s) + doubleclick_ms c w \<and>
         input_lastClicked s = Some ent"
  using assms(1) threshold_uint [OF assms(2)]
  by (auto simp add: input_isDoubleClick_def Let_def word_le_def)



lemma leftClicked_record:
  assumes "mouse_doubleclick c > 0" and "fst (input_leftClicked c e w t ent s)"
  shows "input_lastClicked (snd (input_leftClicked c e w t ent s)) = Some ent"
    and "input_mouseClickLast (snd (input_leftClicked c e w t ent s)) = t"
  using assms
  by (cases ent;
      simp add: input_leftClicked_def input_clickedPilot_def input_clickedPlanet_def
        input_clickedJump_def input_clickedAsteroid_def input_clicked_def Let_def
        split: if_splits)+


lemma leftClicked_run_chained:
  assumes dc: "mouse_doubleclick c > 0"
    and step: "\<And>t t' s. input_lastClicked s = Some ent \<Longrightarrow> input_mouseClickLast s = t \<Longrightarrow>
        threshold_no_wrap c w t \<Longrightarrow> within_doubleclick c w t t' \<Longrightarrow>
        trace (snd (input_leftClicked c e w t' ent s)) = trace s @ act \<and>
        input_lastClicked (snd (input_leftClicked c e w t' ent s)) = Some ent \<and>
        input_mouseClickLast (snd (input_leftClicked c e w t' ent s)) = t'"
  shows "input_lastClicked s = Some ent \<Longrightarrow> input_mouseClickLast s = t \<Longrightarrow>
      clicks_chained c w t ts \<Longrightarrow>
      trace (input_leftClicked_run c e w ent ts s) = trace s @ concat (replicate (length ts) act) \<and>
      input_lastClicked (input_leftClicked_run c e w ent ts s) = Some ent \<and>
      input_mouseClickLast (input_leftClicked_run c e w ent ts s) = last (t # ts)"
proof (induction ts arbitrary: s t)
  case Nil
  then show ?case by simp
next
  case (Cons t' ts)
  let ?s' = "snd (input_leftClicked c e w t' ent s)"
  from Cons.prems have nw: "threshold_no_wrap c w t" and wi: "within_doubleclick c w t t'"
    and ch: "clicks_chained c w t' ts"
    by simp_all
  note st = step [OF Cons.prems(1) Cons.prems(2) nw wi]
  from st have l: "input_lastClicked ?s' = Some ent" and m: "input_mouseClickLast ?s' = t'"
    and tr: "trace ?s' = trace s @ act"
    by simp_all
  from Cons.IH [OF l m ch] tr show ?case
    by simp
qed

lemma isDoubleClick_chained:
  assumes "mouse_doubleclick c > 0" and "input_lastClicked s = Some ent"
    and "input_mouseClickLast s = t" and "threshold_no_wrap c w t"
    and "within_doubleclick c w t t'"
  shows "input_isDoubleClick c w t' ent s"
  using assms isDoubleClick_iff [of c w s t' ent]
  by (simp add: within_doubleclick_def)

lemma clickedPilot_step:
  assumes "mouse_doubleclick c > 0" and "pilot \<noteq> PLAYER_ID" and "pilot = player_target e"
    and "input_isDoubleClick c w t' (EPilot pilot) s"
  shows "trace (snd (input_leftClicked c e w t' (EPilot pilot) s)) =
           trace s @ [if pilot_isDisabled (pilot_get w pilot) \<or> PILOT_BOARDABLE (pilot_get w pilot)
                      then player_board else player_hail] \<and>
         input_lastClicked (snd (input_leftClicked c e w t' (EPilot pilot) s)) = Some (EPilot pilot) \<and>
         input_mouseClickLast (snd (input_leftClicked c e w t' (EPilot pilot) s)) = t'"
  using assms
  by (simp add: input_leftClicked_def input_clickedPilot_def Let_def input_clicked_def)

lemma clickedPlanet_step:
  assumes "mouse_doubleclick c > 0" and "planet_isKnown (planets w planet)"
    and "planet = nav_planet e" and "input_isDoubleClick c w t' (EPlanet planet) s"
  shows "trace (snd (input_leftClicked c e w t' (EPlanet planet) s)) =
           trace s @ [player_hyperspacePreempt 0,
                   if pnt_faction (planets w planet) < 0 \<or> pnt_can_land (planets w planet)
                      \<or> pnt_bribed (planets w planet) \<or> pnt_land_override (planets w planet) > 0
                   then player_land else player_hailPlanet] \<and>
         input_lastClicked (snd (input_leftClicked c e w t' (EPlanet planet) s)) = Some (EPlanet planet) \<and>
         input_mouseClickLast (snd (input_leftClicked c e w t' (EPlanet planet) s)) = t'"
  using assms
  by (simp add: input_leftClicked_def input_clickedPlanet_def Let_def input_clicked_def)

lemma clickedJump_step:
  assumes "mouse_doubleclick c > 0" and "jp_isUsable (jumps w jump)"
    and "jump = nav_hyperspace e" and "input_isDoubleClick c w t' (EJump jump) s"
  shows "trace (snd (input_leftClicked c e w t' (EJump jump) s)) =
           trace s @ (if space_canHyperspace w then [player_jump] else []) \<and>
         input_lastClicked (snd (input_leftClicked c e w t' (EJump jump) s)) = Some (EJump jump) \<and>
         input_mouseClickLast (snd (input_leftClicked c e w t' (EJump jump) s)) = t'"
  using assms
  by (simp add: input_leftClicked_def input_clickedJump_def Let_def input_clicked_def)

lemma clickedAsteroid_step:
  assumes "mouse_doubleclick c > 0"
  shows "trace (snd (input_leftClicked c e w t' (EAsteroid field asteroid) s)) =
           trace s @ [player_targetAsteroidSet field asteroid] \<and>
         input_lastClicked (snd (input_leftClicked c e w t' (EAsteroid field asteroid) s)) =
           Some (EAsteroid field asteroid) \<and>
         input_mouseClickLast (snd (input_leftClicked c e w t' (EAsteroid field asteroid) s)) = t'"
  using assms
  by (simp add: input_leftClicked_def input_clickedAsteroid_def input_clicked_def)

lemma concat_replicate_single: "concat (replicate n [x]) = replicate n x"
  by (induction n) simp_all

lemma concat_replicate_if:
  "concat (replicate n (if b then [x] else [])) = (if b then replicate n x else [])"
  by (induction n) simp_all

lemma leftClicked_resolved:
  "pilot \<noteq> PLAYER_ID \<Longrightarrow> fst (input_leftClicked c e w t (EPilot pilot) s)"
  "planet_isKnown (planets w planet) \<Longrightarrow> fst (input_leftClicked c e w t (EPlanet planet) s)"
  "jp_isUsable (jumps w jump) \<Longrightarrow> fst (input_leftClicked c e w t (EJump jump) s)"
  "fst (input_leftClicked c e w t (EAsteroid field asteroid) s)"
  by (simp_all add: input_leftClicked_def input_clickedPilot_def input_clickedPlanet_def
      input_clickedJump_def input_clickedAsteroid_def Let_def)

lemma right_click_record:
  "input_lastClicked (snd (input_clickedPilot c e w now pilot True s)) = input_lastClicked s"
  "input_mouseClickLast (snd (input_clickedPilot c e w now pilot True s)) = input_mouseClickLast s"
  "input_lastClicked (snd (input_clickedPlanet c e w now planet True s)) = input_lastClicked s"
  "input_mouseClickLast (snd (input_clickedPlanet c e w now planet True s)) = input_mouseClickLast s"
  "input_lastClicked (snd (input_clickedJump c e w now jump True s)) = input_lastClicked s"
  "input_mouseClickLast (snd (input_clickedJump c e w now jump True s)) = input_mouseClickLast s"
  by (simp_all add: input_clickedPilot_def input_clickedPlanet_def input_clickedJump_def Let_def)

text \<open>
  C10, amended. With a threshold above 0, every left click that resolved to an entity
  and was used records that entity and the tick of the click, after a double-click as
  after any other click; a right click that resolved to a pilot, a planet or a jump
  point leaves the record as it was. So in a run of left clicks on one entity, each
  click within the threshold of the left click before it (and the unsigned sum of that
  click's tick and the threshold below \<open>2 ^ 32\<close>), every click after the first makes the
  call of the primary action when the entity is the pilot, the planet or the jump point
  that is the player's target (the jump only when the ship can enter hyperspace); on an
  asteroid every click of the run, the first too, only targets it. The run ends with
  the entity and the tick of the last click recorded.
\<close>

theorem every_further_click_is_double:
  assumes "mouse_doubleclick c > 0" and "clicks_chained c w t ts"
  shows
    "(fst (input_leftClicked c e w now ent s) \<longrightarrow>
        input_lastClicked (snd (input_leftClicked c e w now ent s)) = Some ent \<and>
        input_mouseClickLast (snd (input_leftClicked c e w now ent s)) = now) \<and>
     (input_lastClicked (snd (input_clickedPilot c e w now pilot True s)) = input_lastClicked s \<and>
      input_mouseClickLast (snd (input_clickedPilot c e w now pilot True s)) =
        input_mouseClickLast s) \<and>
     (input_lastClicked (snd (input_clickedPlanet c e w now planet True s)) = input_lastClicked s \<and>
      input_mouseClickLast (snd (input_clickedPlanet c e w now planet True s)) =
        input_mouseClickLast s) \<and>
     (input_lastClicked (snd (input_clickedJump c e w now jump True s)) = input_lastClicked s \<and>
      input_mouseClickLast (snd (input_clickedJump c e w now jump True s)) =
        input_mouseClickLast s) \<and>
     (pilot \<noteq> PLAYER_ID \<and> pilot = player_target e \<longrightarrow>
        trace (input_leftClicked_run c e w (EPilot pilot) (t # ts) s) =
          trace (snd (input_leftClicked c e w t (EPilot pilot) s)) @
          replicate (length ts)
            (if pilot_isDisabled (pilot_get w pilot) \<or> PILOT_BOARDABLE (pilot_get w pilot)
             then player_board else player_hail) \<and>
        input_lastClicked (input_leftClicked_run c e w (EPilot pilot) (t # ts) s) =
          Some (EPilot pilot) \<and>
        input_mouseClickLast (input_leftClicked_run c e w (EPilot pilot) (t # ts) s) =
          last (t # ts)) \<and>
     (planet_isKnown (planets w planet) \<and> planet = nav_planet e \<longrightarrow>
        trace (input_leftClicked_run c e w (EPlanet planet) (t # ts) s) =
          trace (snd (input_leftClicked c e w t (EPlanet planet) s)) @
          concat (replicate (length ts)
            [player_hyperspacePreempt 0,
             if pnt_faction (planets w planet) < 0 \<or> pnt_can_land (planets w planet)
                \<or> pnt_bribed (planets w planet) \<or> pnt_land_override (planets w planet) > 0
             then player_land else player_hailPlanet]) \<and>
        input_lastClicked (input_leftClicked_run c e w (EPlanet planet) (t # ts) s) =
          Some (EPlanet planet) \<and>
        input_mouseClickLast (input_leftClicked_run c e w (EPlanet planet) (t # ts) s) =
          last (t # ts)) \<and>
     (jp_isUsable (jumps w jump) \<and> jump = nav_hyperspace e \<longrightarrow>
        trace (input_leftClicked_run c e w (EJump jump) (t # ts) s) =
          trace (snd (input_leftClicked c e w t (EJump jump) s)) @
          (if space_canHyperspace w then replicate (length ts) player_jump else []) \<and>
        input_lastClicked (input_leftClicked_run c e w (EJump jump) (t # ts) s) =
          Some (EJump jump) \<and>
        input_mouseClickLast (input_leftClicked_run c e w (EJump jump) (t # ts) s) =
          last (t # ts)) \<and>
     (trace (input_leftClicked_run c e w (EAsteroid field asteroid) (t # ts) s) =
        trace s @ replicate (Suc (length ts)) (player_targetAsteroidSet field asteroid) \<and>
      input_lastClicked (input_leftClicked_run c e w (EAsteroid field asteroid) (t # ts) s) =
        Some (EAsteroid field asteroid) \<and>
      input_mouseClickLast (input_leftClicked_run c e w (EAsteroid field asteroid) (t # ts) s) =
        last (t # ts))"
proof -
  note dc = assms(1) and ch = assms(2)
  have run: "input_leftClicked_run c e w ent' (t # ts) s =
      input_leftClicked_run c e w ent' ts (snd (input_leftClicked c e w t ent' s))" for ent'
    by simp
  have p1: "fst (input_leftClicked c e w now ent s) \<longrightarrow>
        input_lastClicked (snd (input_leftClicked c e w now ent s)) = Some ent \<and>
        input_mouseClickLast (snd (input_leftClicked c e w now ent s)) = now"
    using leftClicked_record [OF dc] by blast
  have pp: "pilot \<noteq> PLAYER_ID \<and> pilot = player_target e \<longrightarrow>
        trace (input_leftClicked_run c e w (EPilot pilot) (t # ts) s) =
          trace (snd (input_leftClicked c e w t (EPilot pilot) s)) @
          replicate (length ts)
            (if pilot_isDisabled (pilot_get w pilot) \<or> PILOT_BOARDABLE (pilot_get w pilot)
             then player_board else player_hail) \<and>
        input_lastClicked (input_leftClicked_run c e w (EPilot pilot) (t # ts) s) =
          Some (EPilot pilot) \<and>
        input_mouseClickLast (input_leftClicked_run c e w (EPilot pilot) (t # ts) s) =
          last (t # ts)"
  proof
    assume a: "pilot \<noteq> PLAYER_ID \<and> pilot = player_target e"
    let ?s1 = "snd (input_leftClicked c e w t (EPilot pilot) s)"
    have r: "input_lastClicked ?s1 = Some (EPilot pilot)" "input_mouseClickLast ?s1 = t"
      using leftClicked_record [OF dc leftClicked_resolved(1) [OF conjunct1 [OF a]]]
      by blast+
    have "trace (input_leftClicked_run c e w (EPilot pilot) ts ?s1) =
        trace ?s1 @ concat (replicate (length ts)
          [if pilot_isDisabled (pilot_get w pilot) \<or> PILOT_BOARDABLE (pilot_get w pilot)
           then player_board else player_hail]) \<and>
      input_lastClicked (input_leftClicked_run c e w (EPilot pilot) ts ?s1) = Some (EPilot pilot) \<and>
      input_mouseClickLast (input_leftClicked_run c e w (EPilot pilot) ts ?s1) = last (t # ts)"
    proof (rule leftClicked_run_chained [OF dc _ r ch])
      fix ta tb :: "32 word" and sa :: Input
      assume "input_lastClicked sa = Some (EPilot pilot)" "input_mouseClickLast sa = ta"
        "threshold_no_wrap c w ta" "within_doubleclick c w ta tb"
      then have "input_isDoubleClick c w tb (EPilot pilot) sa"
        by (intro isDoubleClick_chained [OF dc])
      with a show "trace (snd (input_leftClicked c e w tb (EPilot pilot) sa)) =
          trace sa @ [if pilot_isDisabled (pilot_get w pilot) \<or> PILOT_BOARDABLE (pilot_get w pilot)
                      then player_board else player_hail] \<and>
         input_lastClicked (snd (input_leftClicked c e w tb (EPilot pilot) sa)) = Some (EPilot pilot) \<and>
         input_mouseClickLast (snd (input_leftClicked c e w tb (EPilot pilot) sa)) = tb"
        by (intro clickedPilot_step [OF dc]) auto
    qed
    then show "trace (input_leftClicked_run c e w (EPilot pilot) (t # ts) s) =
          trace ?s1 @
          replicate (length ts)
            (if pilot_isDisabled (pilot_get w pilot) \<or> PILOT_BOARDABLE (pilot_get w pilot)
             then player_board else player_hail) \<and>
        input_lastClicked (input_leftClicked_run c e w (EPilot pilot) (t # ts) s) =
          Some (EPilot pilot) \<and>
        input_mouseClickLast (input_leftClicked_run c e w (EPilot pilot) (t # ts) s) =
          last (t # ts)"
      unfolding run concat_replicate_single by simp
  qed
  have pl: "planet_isKnown (planets w planet) \<and> planet = nav_planet e \<longrightarrow>
        trace (input_leftClicked_run c e w (EPlanet planet) (t # ts) s) =
          trace (snd (input_leftClicked c e w t (EPlanet planet) s)) @
          concat (replicate (length ts)
            [player_hyperspacePreempt 0,
             if pnt_faction (planets w planet) < 0 \<or> pnt_can_land (planets w planet)
                \<or> pnt_bribed (planets w planet) \<or> pnt_land_override (planets w planet) > 0
             then player_land else player_hailPlanet]) \<and>
        input_lastClicked (input_leftClicked_run c e w (EPlanet planet) (t # ts) s) =
          Some (EPlanet planet) \<and>
        input_mouseClickLast (input_leftClicked_run c e w (EPlanet planet) (t # ts) s) =
          last (t # ts)"
  proof
    assume a: "planet_isKnown (planets w planet) \<and> planet = nav_planet e"
    let ?s1 = "snd (input_leftClicked c e w t (EPlanet planet) s)"
    have r: "input_lastClicked ?s1 = Some (EPlanet planet)" "input_mouseClickLast ?s1 = t"
      using leftClicked_record [OF dc leftClicked_resolved(2) [OF conjunct1 [OF a]]]
      by blast+
    have "trace (input_leftClicked_run c e w (EPlanet planet) ts ?s1) =
        trace ?s1 @ concat (replicate (length ts)
          [player_hyperspacePreempt 0,
             if pnt_faction (planets w planet) < 0 \<or> pnt_can_land (planets w planet)
                \<or> pnt_bribed (planets w planet) \<or> pnt_land_override (planets w planet) > 0
             then player_land else player_hailPlanet]) \<and>
      input_lastClicked (input_leftClicked_run c e w (EPlanet planet) ts ?s1) = Some (EPlanet planet) \<and>
      input_mouseClickLast (input_leftClicked_run c e w (EPlanet planet) ts ?s1) = last (t # ts)"
    proof (rule leftClicked_run_chained [OF dc _ r ch])
      fix ta tb :: "32 word" and sa :: Input
      assume "input_lastClicked sa = Some (EPlanet planet)" "input_mouseClickLast sa = ta"
        "threshold_no_wrap c w ta" "within_doubleclick c w ta tb"
      then have "input_isDoubleClick c w tb (EPlanet planet) sa"
        by (intro isDoubleClick_chained [OF dc])
      with a show "trace (snd (input_leftClicked c e w tb (EPlanet planet) sa)) =
          trace sa @ [player_hyperspacePreempt 0,
             if pnt_faction (planets w planet) < 0 \<or> pnt_can_land (planets w planet)
                \<or> pnt_bribed (planets w planet) \<or> pnt_land_override (planets w planet) > 0
             then player_land else player_hailPlanet] \<and>
         input_lastClicked (snd (input_leftClicked c e w tb (EPlanet planet) sa)) = Some (EPlanet planet) \<and>
         input_mouseClickLast (snd (input_leftClicked c e w tb (EPlanet planet) sa)) = tb"
        by (intro clickedPlanet_step [OF dc]) auto
    qed
    then show "trace (input_leftClicked_run c e w (EPlanet planet) (t # ts) s) =
          trace ?s1 @
          concat (replicate (length ts)
            [player_hyperspacePreempt 0,
             if pnt_faction (planets w planet) < 0 \<or> pnt_can_land (planets w planet)
                \<or> pnt_bribed (planets w planet) \<or> pnt_land_override (planets w planet) > 0
             then player_land else player_hailPlanet]) \<and>
        input_lastClicked (input_leftClicked_run c e w (EPlanet planet) (t # ts) s) =
          Some (EPlanet planet) \<and>
        input_mouseClickLast (input_leftClicked_run c e w (EPlanet planet) (t # ts) s) =
          last (t # ts)"
      unfolding run by simp
  qed
  have pj: "jp_isUsable (jumps w jump) \<and> jump = nav_hyperspace e \<longrightarrow>
        trace (input_leftClicked_run c e w (EJump jump) (t # ts) s) =
          trace (snd (input_leftClicked c e w t (EJump jump) s)) @
          (if space_canHyperspace w then replicate (length ts) player_jump else []) \<and>
        input_lastClicked (input_leftClicked_run c e w (EJump jump) (t # ts) s) =
          Some (EJump jump) \<and>
        input_mouseClickLast (input_leftClicked_run c e w (EJump jump) (t # ts) s) =
          last (t # ts)"
  proof
    assume a: "jp_isUsable (jumps w jump) \<and> jump = nav_hyperspace e"
    let ?s1 = "snd (input_leftClicked c e w t (EJump jump) s)"
    have r: "input_lastClicked ?s1 = Some (EJump jump)" "input_mouseClickLast ?s1 = t"
      using leftClicked_record [OF dc leftClicked_resolved(3) [OF conjunct1 [OF a]]]
      by blast+
    have "trace (input_leftClicked_run c e w (EJump jump) ts ?s1) =
        trace ?s1 @ concat (replicate (length ts)
          (if space_canHyperspace w then [player_jump] else [])) \<and>
      input_lastClicked (input_leftClicked_run c e w (EJump jump) ts ?s1) = Some (EJump jump) \<and>
      input_mouseClickLast (input_leftClicked_run c e w (EJump jump) ts ?s1) = last (t # ts)"
    proof (rule leftClicked_run_chained [OF dc _ r ch])
      fix ta tb :: "32 word" and sa :: Input
      assume "input_lastClicked sa = Some (EJump jump)" "input_mouseClickLast sa = ta"
        "threshold_no_wrap c w ta" "within_doubleclick c w ta tb"
      then have "input_isDoubleClick c w tb (EJump jump) sa"
        by (intro isDoubleClick_chained [OF dc])
      with a show "trace (snd (input_leftClicked c e w tb (EJump jump) sa)) =
          trace sa @ (if space_canHyperspace w then [player_jump] else []) \<and>
         input_lastClicked (snd (input_leftClicked c e w tb (EJump jump) sa)) = Some (EJump jump) \<and>
         input_mouseClickLast (snd (input_leftClicked c e w tb (EJump jump) sa)) = tb"
        by (intro clickedJump_step [OF dc]) auto
    qed
    then show "trace (input_leftClicked_run c e w (EJump jump) (t # ts) s) =
          trace ?s1 @
          (if space_canHyperspace w then replicate (length ts) player_jump else []) \<and>
        input_lastClicked (input_leftClicked_run c e w (EJump jump) (t # ts) s) =
          Some (EJump jump) \<and>
        input_mouseClickLast (input_leftClicked_run c e w (EJump jump) (t # ts) s) =
          last (t # ts)"
      unfolding run concat_replicate_if by simp
  qed
  have pa: "trace (input_leftClicked_run c e w (EAsteroid field asteroid) (t # ts) s) =
        trace s @ replicate (Suc (length ts)) (player_targetAsteroidSet field asteroid) \<and>
      input_lastClicked (input_leftClicked_run c e w (EAsteroid field asteroid) (t # ts) s) =
        Some (EAsteroid field asteroid) \<and>
      input_mouseClickLast (input_leftClicked_run c e w (EAsteroid field asteroid) (t # ts) s) =
        last (t # ts)"
  proof -
    let ?ent = "EAsteroid field asteroid"
    let ?s1 = "snd (input_leftClicked c e w t ?ent s)"
    note f = clickedAsteroid_step [OF dc, of e w t field asteroid s]
    have r: "input_lastClicked ?s1 = Some ?ent" "input_mouseClickLast ?s1 = t"
      using f by simp_all
    have "trace (input_leftClicked_run c e w ?ent ts ?s1) =
        trace ?s1 @ concat (replicate (length ts) [player_targetAsteroidSet field asteroid]) \<and>
      input_lastClicked (input_leftClicked_run c e w ?ent ts ?s1) = Some ?ent \<and>
      input_mouseClickLast (input_leftClicked_run c e w ?ent ts ?s1) = last (t # ts)"
      by (rule leftClicked_run_chained [OF dc _ r ch]) (rule clickedAsteroid_step [OF dc])
    then show ?thesis
      unfolding run concat_replicate_single using f
      by (simp add: replicate_append_same)
  qed
  show ?thesis
    by (intro conjI p1 pp pl pj pa right_click_record)
qed

lemma far_iff:
  "sqrt (pow2 a + pow2 b) > 1500 \<longleftrightarrow> pow2 a + pow2 b > pow2 1500"
  "sqrt (pow2 a + pow2 b) < 1500 \<longleftrightarrow> pow2 a + pow2 b < pow2 1500"
proof -
  have s: "sqrt (pow2 1500) = 1500"
    by (simp add: pow2_def)
  have "sqrt (pow2 a + pow2 b) > sqrt (pow2 1500) \<longleftrightarrow> pow2 a + pow2 b > pow2 1500"
    by (rule real_sqrt_less_iff)
  then show "sqrt (pow2 a + pow2 b) > 1500 \<longleftrightarrow> pow2 a + pow2 b > pow2 1500"
    by (simp only: s)
  have "sqrt (pow2 a + pow2 b) < sqrt (pow2 1500) \<longleftrightarrow> pow2 a + pow2 b < pow2 1500"
    by (rule real_sqrt_less_iff)
  then show "sqrt (pow2 a + pow2 b) < 1500 \<longleftrightarrow> pow2 a + pow2 b < pow2 1500"
    by (simp only: s)
qed

lemma clickedPlanet_unknown:
  "\<not> planet_isKnown (planets w pntid) \<Longrightarrow> input_clickedPlanet c e w now pntid a s = (False, s)"
  by (simp add: input_clickedPlanet_def)

lemma clickedJump_unusable:
  "\<not> jp_isUsable (jumps w jpid) \<Longrightarrow> input_clickedJump c e w now jpid a s = (False, s)"
  by (simp add: input_clickedJump_def)

text \<open>
  C5: a right click for which no candidate is left to use (no pilot after the
  rejections, the planet candidate absent or unknown, the jump candidate absent or
  unusable) issues the one call \<^verbatim>\<open>player_autonavPos(x, y)\<close> when the clicked position is
  farther than 1500 from the player's ship, and no call when it is closer; the click
  counts as used either way.
\<close>

theorem right_click_autonav_pos:
  assumes "button event = SDL_BUTTON_RIGHT"
    and "input_clickPos_candidates e w event x y zoom minpr minr =
           ((pid, pntid, jpid, astid, fieid), warn)"
    and "pid = PLAYER_ID"
    and "pntid < 0 \<or> \<not> planet_isKnown (planets w pntid)"
    and "jpid < 0 \<or> \<not> jp_isUsable (jumps w jpid)"
  shows "(sqrt (pow2 (x - player_pos_x w) + pow2 (y - player_pos_y w)) > 1500 \<longrightarrow>
            input_clickPos c e w now event x y zoom minpr minr s =
              (True, emit [player_autonavPos x y] (emit warn s))) \<and>
         (sqrt (pow2 (x - player_pos_x w) + pow2 (y - player_pos_y w)) < 1500 \<longrightarrow>
            input_clickPos c e w now event x y zoom minpr minr s = (True, emit warn s))"
proof -
  have pl: "(if pntid \<ge> 0 then input_clickedPlanet c e w now pntid True (emit warn s)
             else (False, emit warn s)) = (False, emit warn s)"
    using assms(4) by (auto simp add: clickedPlanet_unknown)
  have jp: "(if jpid \<ge> 0 then input_clickedJump c e w now jpid True (emit warn s)
             else (False, emit warn s)) = (False, emit warn s)"
    using assms(5) by (auto simp add: clickedJump_unusable)
  have r: "input_clickPos c e w now event x y zoom minpr minr s =
           (if pow2 (x - player_pos_x w) + pow2 (y - player_pos_y w) \<ge> pow2 1500
            then (True, emit [player_autonavPos x y] (emit warn s))
            else (True, emit warn s))"
    using assms(1,3)
    by (simp add: input_clickPos_def assms(2) input_clickPos_right_def pl jp
        SDL_BUTTON_RIGHT_def SDL_BUTTON_LEFT_def)
  show ?thesis
    unfolding far_iff r by simp
qed

lemma clickedPilot_used:
  "pid \<noteq> PLAYER_ID \<Longrightarrow> fst (input_clickedPilot c e w now pid a s) = True"
  by (simp add: input_clickedPilot_def Let_def)

lemma border_fall_through:
  "(case (r :: bool \<times> Input) of (True, s1) \<Rightarrow> s1 | (False, s1) \<Rightarrow> f s1) =
     (if fst r then snd r else f (snd r))"
  by (cases r) simp

lemma border_if_chain:
  "(case (if A then X else if B then Y else if C then Z else (False, s')) of
      (True, s1) \<Rightarrow> s1 | (False, s1) \<Rightarrow> f s1) =
   (if A then (case X of (True, s1) \<Rightarrow> s1 | (False, s1) \<Rightarrow> f s1)
    else if B then (case Y of (True, s1) \<Rightarrow> s1 | (False, s1) \<Rightarrow> f s1)
    else if C then (case Z of (True, s1) \<Rightarrow> s1 | (False, s1) \<Rightarrow> f s1)
    else f (s' :: Input))"
  by simp

lemma border_asteroid:
  "(case input_clickedAsteroid c now fie ast s of
      (True, s1) \<Rightarrow> s1 | (False, s1) \<Rightarrow> f s1) =
   snd (input_clickedAsteroid c now fie ast s)"
  by (simp add: input_clickedAsteroid_def)

text \<open>
  C4, as the code has it. For a click on the border of the screen, with \<open>devp\<close> and
  \<open>deva\<close> the angular deviations of the nearest pilot and the nearest asset from the
  bearing of the click: the pilot candidate is kept if and only if there is one, \<open>devp\<close>
  is at most \<open>pi / 64\<close> and \<open>deva\<close> is not below \<open>devp\<close>; a candidate whose deviation is
  above \<open>pi / 64\<close> is dropped by the block whatever its distance. The last part is what
  \<^verbatim>\<open>input_clickevent\<close> does with a left or right click on the border: after the mouse
  hook, the pilot's handler runs when the pilot candidate is kept; otherwise the handler
  of the asset candidate when that is kept (the planet, else the jump point, else the
  asteroid), and when a planet or jump handler does not use the click, or no candidate
  is kept, the click goes on to the normal, distance-based handling.
\<close>

theorem border_click_angular:
  assumes "x = (real_of_int mx - real_of_int (gl_screen_w w) / 2) + player_pos_x w"
    and "y = (real_of_int my - real_of_int (gl_screen_h w) / 2) + player_pos_y w"
    and "mouseang = atan2 (player_pos_y w - y) (player_pos_x w - x)"
    and "pilot_getNearestAng w mouseang = (pid0, angp)"
    and "system_getClosestAng w x y mouseang = ((pntid0, jpid0, astid0, fieid0), ang)"
    and "devp = \<bar>angle_diff w mouseang angp\<bar>"
    and "deva = \<bar>angle_diff w mouseang ang\<bar>"
  shows "(fst (input_clickevent_border_candidates w mx my) \<noteq> PLAYER_ID \<longleftrightarrow>
            pid0 \<noteq> PLAYER_ID \<and> devp \<le> pi / 64 \<and> \<not> deva < devp) \<and>
         (pid0 \<noteq> PLAYER_ID \<and> devp \<le> pi / 64 \<and> \<not> deva < devp \<longrightarrow>
            input_clickevent_border c e w now autonav mx my s =
              input_clickedPilot c e w now pid0 autonav s \<and>
            fst (input_clickevent_border c e w now autonav mx my s) = True) \<and>
         (devp > pi / 64 \<longrightarrow> fst (input_clickevent_border_candidates w mx my) = PLAYER_ID) \<and>
         (deva > pi / 64 \<longrightarrow>
            snd (input_clickevent_border_candidates w mx my) = (- 1, - 1, - 1, - 1)) \<and>
         (deva \<le> pi / 64 \<longrightarrow>
            snd (input_clickevent_border_candidates w mx my) = (pntid0, jpid0, astid0, fieid0)) \<and>
         (devp > pi / 64 \<and> deva > pi / 64 \<longrightarrow>
            input_clickevent_border c e w now autonav mx my s = (False, s)) \<and>
         (player_p e \<and> \<not> player_isFlag PLAYER_DESTROYED s \<and> \<not> PILOT_DEAD e \<and>
          (button event = SDL_BUTTON_LEFT \<or> button event = SDL_BUTTON_RIGHT) \<and>
          gl_windowToScreenPos w (button_x event) (button_y event) = (mx, my) \<and>
          ((mx \<le> 15 \<or> my \<le> 15) \<or> (my \<ge> gl_screen_h w - 15 \<or> mx \<ge> gl_screen_w w - 15)) \<longrightarrow>
            input_clickevent c e w now event s =
              (if pid0 \<noteq> PLAYER_ID \<and> devp \<le> pi / 64 \<and> \<not> deva < devp then
                 snd (input_clickedPilot c e w now pid0 (button event = SDL_BUTTON_RIGHT)
                        (emit [hooks_runParam_mouse (button event)] s))
               else if deva \<le> pi / 64 \<and> 0 \<le> pntid0 then
                 (case input_clickedPlanet c e w now pntid0 (button event = SDL_BUTTON_RIGHT)
                         (emit [hooks_runParam_mouse (button event)] s) of
                    (True, s1) \<Rightarrow> s1
                  | (False, s1) \<Rightarrow> input_clickevent_normal c e w now event mx my s1)
               else if deva \<le> pi / 64 \<and> 0 \<le> jpid0 then
                 (case input_clickedJump c e w now jpid0 (button event = SDL_BUTTON_RIGHT)
                         (emit [hooks_runParam_mouse (button event)] s) of
                    (True, s1) \<Rightarrow> s1
                  | (False, s1) \<Rightarrow> input_clickevent_normal c e w now event mx my s1)
               else if deva \<le> pi / 64 \<and> 0 \<le> astid0 then
                 snd (input_clickedAsteroid c now fieid0 astid0
                        (emit [hooks_runParam_mouse (button event)] s))
               else input_clickevent_normal c e w now event mx my
                      (emit [hooks_runParam_mouse (button event)] s)))"
proof -
  have cand: "input_clickevent_border_candidates w mx my =
      (if devp > pi / 64 \<or> deva < devp then PLAYER_ID else pid0,
       if deva > pi / 64 then (- 1, - 1, - 1, - 1) else (pntid0, jpid0, astid0, fieid0))"
    unfolding input_clickevent_border_candidates_def Let_def
      assms(1) [symmetric] assms(2) [symmetric] assms(3) [symmetric] assms(4) assms(5)
    by (simp add: assms(6) assms(7))
  have c1: "fst (input_clickevent_border_candidates w mx my) \<noteq> PLAYER_ID \<longleftrightarrow>
            pid0 \<noteq> PLAYER_ID \<and> devp \<le> pi / 64 \<and> \<not> deva < devp"
    unfolding cand by auto
  have bp: "input_clickevent_border c e w now a mx my s' =
          input_clickedPilot c e w now pid0 a s'"
    if "pid0 \<noteq> PLAYER_ID \<and> devp \<le> pi / 64 \<and> \<not> deva < devp" for a s'
    using that unfolding input_clickevent_border_def cand by (simp split: prod.splits)
  have c2: "pid0 \<noteq> PLAYER_ID \<and> devp \<le> pi / 64 \<and> \<not> deva < devp \<longrightarrow>
      input_clickevent_border c e w now autonav mx my s =
        input_clickedPilot c e w now pid0 autonav s \<and>
      fst (input_clickevent_border c e w now autonav mx my s) = True"
    using bp by (simp add: clickedPilot_used)
  have c3: "devp > pi / 64 \<longrightarrow> fst (input_clickevent_border_candidates w mx my) = PLAYER_ID"
    unfolding cand by simp
  have c4: "deva > pi / 64 \<longrightarrow>
            snd (input_clickevent_border_candidates w mx my) = (- 1, - 1, - 1, - 1)"
    unfolding cand by simp
  have c5: "deva \<le> pi / 64 \<longrightarrow>
            snd (input_clickevent_border_candidates w mx my) = (pntid0, jpid0, astid0, fieid0)"
    unfolding cand by simp
  have c6: "devp > pi / 64 \<and> deva > pi / 64 \<longrightarrow>
            input_clickevent_border c e w now autonav mx my s = (False, s)"
    unfolding input_clickevent_border_def cand by simp
  have bo: "input_clickevent_border c e w now a mx my s' =
      (if deva \<le> pi / 64 \<and> 0 \<le> pntid0 then input_clickedPlanet c e w now pntid0 a s'
       else if deva \<le> pi / 64 \<and> 0 \<le> jpid0 then input_clickedJump c e w now jpid0 a s'
       else if deva \<le> pi / 64 \<and> 0 \<le> astid0 then input_clickedAsteroid c now fieid0 astid0 s'
       else (False, s'))"
    if "\<not> (pid0 \<noteq> PLAYER_ID \<and> devp \<le> pi / 64 \<and> \<not> deva < devp)" for a s'
    using that unfolding input_clickevent_border_def cand by auto
  have c7: "player_p e \<and> \<not> player_isFlag PLAYER_DESTROYED s \<and> \<not> PILOT_DEAD e \<and>
          (button event = SDL_BUTTON_LEFT \<or> button event = SDL_BUTTON_RIGHT) \<and>
          gl_windowToScreenPos w (button_x event) (button_y event) = (mx, my) \<and>
          ((mx \<le> 15 \<or> my \<le> 15) \<or> (my \<ge> gl_screen_h w - 15 \<or> mx \<ge> gl_screen_w w - 15)) \<longrightarrow>
            input_clickevent c e w now event s =
              (if pid0 \<noteq> PLAYER_ID \<and> devp \<le> pi / 64 \<and> \<not> deva < devp then
                 snd (input_clickedPilot c e w now pid0 (button event = SDL_BUTTON_RIGHT)
                        (emit [hooks_runParam_mouse (button event)] s))
               else if deva \<le> pi / 64 \<and> 0 \<le> pntid0 then
                 (case input_clickedPlanet c e w now pntid0 (button event = SDL_BUTTON_RIGHT)
                         (emit [hooks_runParam_mouse (button event)] s) of
                    (True, s1) \<Rightarrow> s1
                  | (False, s1) \<Rightarrow> input_clickevent_normal c e w now event mx my s1)
               else if deva \<le> pi / 64 \<and> 0 \<le> jpid0 then
                 (case input_clickedJump c e w now jpid0 (button event = SDL_BUTTON_RIGHT)
                         (emit [hooks_runParam_mouse (button event)] s) of
                    (True, s1) \<Rightarrow> s1
                  | (False, s1) \<Rightarrow> input_clickevent_normal c e w now event mx my s1)
               else if deva \<le> pi / 64 \<and> 0 \<le> astid0 then
                 snd (input_clickedAsteroid c now fieid0 astid0
                        (emit [hooks_runParam_mouse (button event)] s))
               else input_clickevent_normal c e w now event mx my
                      (emit [hooks_runParam_mouse (button event)] s))"
  proof
    let ?s0 = "emit [hooks_runParam_mouse (button event)] s"
    let ?a = "button event = SDL_BUTTON_RIGHT"
    assume h: "player_p e \<and> \<not> player_isFlag PLAYER_DESTROYED s \<and> \<not> PILOT_DEAD e \<and>
          (button event = SDL_BUTTON_LEFT \<or> button event = SDL_BUTTON_RIGHT) \<and>
          gl_windowToScreenPos w (button_x event) (button_y event) = (mx, my) \<and>
          ((mx \<le> 15 \<or> my \<le> 15) \<or> (my \<ge> gl_screen_h w - 15 \<or> mx \<ge> gl_screen_w w - 15))"
    have nm: "button event \<noteq> SDL_BUTTON_MIDDLE"
      using h by (auto simp add: SDL_BUTTON_LEFT_def SDL_BUTTON_RIGHT_def SDL_BUTTON_MIDDLE_def)
    have fl: "\<not> player_isFlag PLAYER_DESTROYED ?s0"
      using h by (simp add: player_isFlag_def)
    have ev: "input_clickevent c e w now event s =
        (case input_clickevent_border c e w now ?a mx my ?s0 of
           (True, s1) \<Rightarrow> s1
         | (False, s1) \<Rightarrow> input_clickevent_normal c e w now event mx my s1)"
      unfolding input_clickevent_def Let_def
      using h nm fl by auto
    show "input_clickevent c e w now event s =
              (if pid0 \<noteq> PLAYER_ID \<and> devp \<le> pi / 64 \<and> \<not> deva < devp then
                 snd (input_clickedPilot c e w now pid0 ?a ?s0)
               else if deva \<le> pi / 64 \<and> 0 \<le> pntid0 then
                 (case input_clickedPlanet c e w now pntid0 ?a ?s0 of
                    (True, s1) \<Rightarrow> s1
                  | (False, s1) \<Rightarrow> input_clickevent_normal c e w now event mx my s1)
               else if deva \<le> pi / 64 \<and> 0 \<le> jpid0 then
                 (case input_clickedJump c e w now jpid0 ?a ?s0 of
                    (True, s1) \<Rightarrow> s1
                  | (False, s1) \<Rightarrow> input_clickevent_normal c e w now event mx my s1)
               else if deva \<le> pi / 64 \<and> 0 \<le> astid0 then
                 snd (input_clickedAsteroid c now fieid0 astid0 ?s0)
               else input_clickevent_normal c e w now event mx my ?s0)"
    proof (cases "pid0 \<noteq> PLAYER_ID \<and> devp \<le> pi / 64 \<and> \<not> deva < devp")
      case True
      then show ?thesis
        unfolding ev bp [OF True] border_fall_through
        by (simp add: clickedPilot_used)
    next
      case False
      show ?thesis
        unfolding ev bo [OF False] border_if_chain border_asteroid
        by (simp only: False if_False)
    qed
  qed
  show ?thesis
    by (intro conjI c1 c2 c3 c4 c5 c6 c7)
qed

subsection \<open>Evaluation on the example inputs\<close>

lemma example_ms:
  "doubleclick_ms example_conf example_world = 500"
  "doubleclick_ms example_conf (example_world\<lparr>space_canHyperspace := False\<rparr>) = 500"
  by (simp_all add: doubleclick_ms_def example_conf_def example_world_def double_to_int_def)


lemma example_targets:
  "(5 :: nat) \<noteq> PLAYER_ID" "5 = player_target example_env"
  "planet_isKnown (planets example_world 2)" "2 = nav_planet example_env"
  "jp_isUsable (jumps example_world j)" "0 = nav_hyperspace example_env"
  "1 \<noteq> nav_hyperspace example_env"
  "space_canHyperspace example_world"
  by (simp_all add: PLAYER_ID_def example_env_def example_world_def example_planet_def
      example_jump_def)

lemma example_world_entities:
  "double_mul example_world a b = a * b" "jumps example_world j = example_jump"
  "pilot_get example_world p = example_pilot" "planets example_world i = example_planet"
  "space_canHyperspace example_world"
  by (simp_all add: example_world_def)

lemma example_actions:
  "\<not> pilot_isDisabled (pilot_get example_world 5)"
  "\<not> PILOT_BOARDABLE (pilot_get example_world 5)"
  "pnt_can_land (planets example_world 2)"
  "jp_target (jumps example_world 1) = ''Alteris''"
  by (simp_all add: example_world_entities example_pilot_def example_planet_def
      example_jump_def)

lemma example_first_click:
  "snd (input_leftClicked example_conf example_env example_world 1000 (EPilot 5)
          (input_start example_keybinds)) =
     (input_start example_keybinds)
       \<lparr>input_lastClicked := Some (EPilot 5), input_mouseClickLast := 1000,
        trace := [player_targetSet 5]\<rparr>"
  "snd (input_leftClicked example_conf example_env example_world 1000 (EPlanet 2)
          (input_start example_keybinds)) =
     (input_start example_keybinds)
       \<lparr>input_lastClicked := Some (EPlanet 2), input_mouseClickLast := 1000,
        trace := [player_targetPlanetSet 2]\<rparr>"
  "snd (input_leftClicked example_conf example_env example_world 1000 (EJump 0)
          (input_start example_keybinds)) =
     (input_start example_keybinds)
       \<lparr>input_lastClicked := Some (EJump 0), input_mouseClickLast := 1000,
        trace := [player_targetHyperspaceSet 0]\<rparr>"
  "fst (input_leftClicked example_conf example_env example_world 1000 (EPilot 5)
          (input_start example_keybinds))"
  "fst (input_leftClicked example_conf example_env example_world 1000 (EPlanet 2)
          (input_start example_keybinds))"
  "fst (input_leftClicked example_conf example_env example_world 1000 (EJump 0)
          (input_start example_keybinds))"
  by (simp_all add: input_leftClicked_def input_clickedPilot_def input_clickedPlanet_def
      input_clickedJump_def Let_def input_isDoubleClick_def input_clicked_def emit_def
      PLAYER_ID_def example_env_def example_world_def example_planet_def
      example_jump_def example_conf_def input_start_def)



theorem every_further_click_is_double_witness:
  "mouse_doubleclick example_conf > 0 \<and>
   clicks_chained example_conf example_world 1000 [1300, 1700, 2000] \<and>
   fst (input_leftClicked example_conf example_env example_world 1000 (EPilot 5)
          (input_start example_keybinds)) \<and>
   input_lastClicked (snd (input_leftClicked example_conf example_env example_world 1000
     (EPilot 5) (input_start example_keybinds))) = Some (EPilot 5) \<and>
   input_mouseClickLast (snd (input_leftClicked example_conf example_env example_world 1000
     (EPilot 5) (input_start example_keybinds))) = 1000 \<and>
   input_lastClicked (snd (input_clickedPilot example_conf example_env example_world 1000 5 True
     (input_start example_keybinds))) = None \<and>
   input_mouseClickLast (snd (input_clickedPilot example_conf example_env example_world 1000 5
     True (input_start example_keybinds))) = 0 \<and>
   input_lastClicked (snd (input_clickedPlanet example_conf example_env example_world 1000 2 True
     (input_start example_keybinds))) = None \<and>
   input_mouseClickLast (snd (input_clickedPlanet example_conf example_env example_world 1000 2
     True (input_start example_keybinds))) = 0 \<and>
   input_lastClicked (snd (input_clickedJump example_conf example_env example_world 1000 0 True
     (input_start example_keybinds))) = None \<and>
   input_mouseClickLast (snd (input_clickedJump example_conf example_env example_world 1000 0
     True (input_start example_keybinds))) = 0 \<and>
   (5 :: nat) \<noteq> PLAYER_ID \<and> 5 = player_target example_env \<and>
   trace (input_leftClicked_run example_conf example_env example_world (EPilot 5)
            [1000, 1300, 1700, 2000] (input_start example_keybinds)) =
     [player_targetSet 5, player_hail, player_hail, player_hail] \<and>
   input_lastClicked (input_leftClicked_run example_conf example_env example_world (EPilot 5)
            [1000, 1300, 1700, 2000] (input_start example_keybinds)) = Some (EPilot 5) \<and>
   input_mouseClickLast (input_leftClicked_run example_conf example_env example_world (EPilot 5)
            [1000, 1300, 1700, 2000] (input_start example_keybinds)) = 2000 \<and>
   planet_isKnown (planets example_world 2) \<and> 2 = nav_planet example_env \<and>
   trace (input_leftClicked_run example_conf example_env example_world (EPlanet 2)
            [1000, 1300, 1700, 2000] (input_start example_keybinds)) =
     [player_targetPlanetSet 2, player_hyperspacePreempt 0, player_land,
      player_hyperspacePreempt 0, player_land, player_hyperspacePreempt 0, player_land] \<and>
   input_mouseClickLast (input_leftClicked_run example_conf example_env example_world (EPlanet 2)
            [1000, 1300, 1700, 2000] (input_start example_keybinds)) = 2000 \<and>
   jp_isUsable (jumps example_world 0) \<and> 0 = nav_hyperspace example_env \<and>
   trace (input_leftClicked_run example_conf example_env example_world (EJump 0)
            [1000, 1300, 1700, 2000] (input_start example_keybinds)) =
     [player_targetHyperspaceSet 0, player_jump, player_jump, player_jump] \<and>
   input_mouseClickLast (input_leftClicked_run example_conf example_env example_world (EJump 0)
            [1000, 1300, 1700, 2000] (input_start example_keybinds)) = 2000 \<and>
   trace (input_leftClicked_run example_conf example_env example_world (EAsteroid 0 3)
            [1000, 1300, 1700, 2000] (input_start example_keybinds)) =
     [player_targetAsteroidSet 0 3, player_targetAsteroidSet 0 3,
      player_targetAsteroidSet 0 3, player_targetAsteroidSet 0 3] \<and>
   input_mouseClickLast (input_leftClicked_run example_conf example_env example_world
            (EAsteroid 0 3) [1000, 1300, 1700, 2000] (input_start example_keybinds)) = 2000"
proof -
  let ?c = example_conf and ?e = example_env and ?w = example_world
  let ?s0 = "input_start example_keybinds"
  let ?ts = "[1300, 1700, 2000] :: 32 word list"
  have h1: "mouse_doubleclick ?c > 0"
    by (simp add: example_conf_def)
  have h2: "clicks_chained ?c ?w 1000 ?ts"
    by (simp add: threshold_no_wrap_def within_doubleclick_def example_ms)
  note th = every_further_click_is_double [OF h1 h2, where e = ?e and s = ?s0 and pilot = 5
      and planet = 2 and jump = 0 and field = 0 and asteroid = 3 and now = 1000
      and ent = "EPilot 5"]
  have len: "length ?ts = Suc (Suc (Suc 0))" "last (1000 # ?ts) = 2000"
    by simp_all
  have s0: "input_lastClicked ?s0 = None" "input_mouseClickLast ?s0 = 0" "trace ?s0 = []"
    by (simp_all add: input_start_def)
  note th' = th [unfolded len s0]
  have rp: "trace (input_leftClicked_run ?c ?e ?w (EPilot 5) (1000 # ?ts) ?s0) =
      [player_targetSet 5, player_hail, player_hail, player_hail] \<and>
    input_lastClicked (input_leftClicked_run ?c ?e ?w (EPilot 5) (1000 # ?ts) ?s0) =
      Some (EPilot 5) \<and>
    input_mouseClickLast (input_leftClicked_run ?c ?e ?w (EPilot 5) (1000 # ?ts) ?s0) = 2000"
    using th' example_targets(1,2) unfolding example_first_click
    by (simp add: example_actions del: input_leftClicked_run.simps)
  have rl: "trace (input_leftClicked_run ?c ?e ?w (EPlanet 2) (1000 # ?ts) ?s0) =
      [player_targetPlanetSet 2, player_hyperspacePreempt 0, player_land,
       player_hyperspacePreempt 0, player_land, player_hyperspacePreempt 0, player_land] \<and>
    input_mouseClickLast (input_leftClicked_run ?c ?e ?w (EPlanet 2) (1000 # ?ts) ?s0) = 2000"
    using th' example_targets(3,4) unfolding example_first_click
    by (simp add: example_actions del: input_leftClicked_run.simps)
  have rj: "trace (input_leftClicked_run ?c ?e ?w (EJump 0) (1000 # ?ts) ?s0) =
      [player_targetHyperspaceSet 0, player_jump, player_jump, player_jump] \<and>
    input_mouseClickLast (input_leftClicked_run ?c ?e ?w (EJump 0) (1000 # ?ts) ?s0) = 2000"
    using th' example_targets(5,6,8) unfolding example_first_click
    by (simp del: input_leftClicked_run.simps)
  have ra: "trace (input_leftClicked_run ?c ?e ?w (EAsteroid 0 3) (1000 # ?ts) ?s0) =
      [player_targetAsteroidSet 0 3, player_targetAsteroidSet 0 3,
       player_targetAsteroidSet 0 3, player_targetAsteroidSet 0 3] \<and>
    input_mouseClickLast (input_leftClicked_run ?c ?e ?w (EAsteroid 0 3) (1000 # ?ts) ?s0) = 2000"
    using th'
    by (simp del: input_leftClicked_run.simps)
  have rec: "input_lastClicked (snd (input_leftClicked ?c ?e ?w 1000 (EPilot 5) ?s0)) =
      Some (EPilot 5) \<and>
    input_mouseClickLast (snd (input_leftClicked ?c ?e ?w 1000 (EPilot 5) ?s0)) = 1000"
    using th example_first_click(4) by blast
  have rc: "input_lastClicked (snd (input_clickedPilot ?c ?e ?w 1000 5 True ?s0)) = None"
    "input_mouseClickLast (snd (input_clickedPilot ?c ?e ?w 1000 5 True ?s0)) = 0"
    "input_lastClicked (snd (input_clickedPlanet ?c ?e ?w 1000 2 True ?s0)) = None"
    "input_mouseClickLast (snd (input_clickedPlanet ?c ?e ?w 1000 2 True ?s0)) = 0"
    "input_lastClicked (snd (input_clickedJump ?c ?e ?w 1000 0 True ?s0)) = None"
    "input_mouseClickLast (snd (input_clickedJump ?c ?e ?w 1000 0 True ?s0)) = 0"
    using th' by blast+
  show ?thesis
    using h1 h2 example_first_click(4) rec rc example_targets(1-6) rp rl rj ra
    by (intro conjI) blast+
qed

text \<open>
  C10 as the spec states it fails. A right click on pilot 5 at tick 1400 is used and
  records nothing: the record stays at the left click of tick 1000, so the left click
  at tick 1700, within the threshold of the click before it, selects the pilot instead
  of hailing it. Where the ship cannot enter hyperspace, the second and third click of
  a run on jump point 0 make no call; on an asteroid they target it again. And near the
  end of the range of the tick counter no click of a run is a double-click.
\<close>

theorem every_further_click_is_double_counterexample:
  "mouse_doubleclick example_conf > 0 \<and> 5 = player_target example_env \<and>
   fst (input_clickedPilot example_conf example_env example_world 1400 5 True
     (snd (input_leftClicked example_conf example_env example_world 1000 (EPilot 5)
             (input_start example_keybinds)))) \<and>
   input_mouseClickLast
     (snd (input_clickedPilot example_conf example_env example_world 1400 5 True
        (snd (input_leftClicked example_conf example_env example_world 1000 (EPilot 5)
                (input_start example_keybinds))))) = 1000 \<and>
   threshold_no_wrap example_conf example_world 1400 \<and>
   within_doubleclick example_conf example_world 1400 1700 \<and>
   trace (snd (input_leftClicked example_conf example_env example_world 1700 (EPilot 5)
     (snd (input_clickedPilot example_conf example_env example_world 1400 5 True
        (snd (input_leftClicked example_conf example_env example_world 1000 (EPilot 5)
                (input_start example_keybinds))))))) =
     [player_targetSet 5, player_targetSet 5, player_autonavPil 5, player_targetSet 5] \<and>
   jp_isUsable (jumps (example_world\<lparr>space_canHyperspace := False\<rparr>) 0) \<and>
   0 = nav_hyperspace example_env \<and>
   clicks_chained example_conf (example_world\<lparr>space_canHyperspace := False\<rparr>) 1000
     [1300, 1600] \<and>
   trace (input_leftClicked_run example_conf example_env
            (example_world\<lparr>space_canHyperspace := False\<rparr>) (EJump 0) [1000, 1300, 1600]
            (input_start example_keybinds)) = [player_targetHyperspaceSet 0] \<and>
   trace (input_leftClicked_run example_conf example_env example_world (EAsteroid 0 3)
            [1000, 1300, 1600] (input_start example_keybinds)) =
     [player_targetAsteroidSet 0 3, player_targetAsteroidSet 0 3,
      player_targetAsteroidSet 0 3] \<and>
   within_doubleclick example_conf example_world 4294966800 4294967000 \<and>
   within_doubleclick example_conf example_world 4294967000 4294967100 \<and>
   trace (input_leftClicked_run example_conf example_env example_world (EPilot 5)
            [4294966800, 4294967000, 4294967100] (input_start example_keybinds)) =
     [player_targetSet 5, player_targetSet 5, player_targetSet 5]"
proof -
  let ?c = example_conf and ?e = example_env
  let ?w = "example_world\<lparr>space_canHyperspace := False\<rparr>"
  let ?s0 = "input_start example_keybinds"
  have dc: "mouse_doubleclick ?c > 0" "mouse_doubleclick ?c = 1 / 2"
    by (simp_all add: example_conf_def)
  have th: "double_to_int 500 = 500"
    by (simp add: double_to_int_def)
  have tg: "player_target ?e = 5" "nav_hyperspace ?e = 0"
    by (simp_all add: example_env_def)
  have w: "threshold_no_wrap ?c example_world 1400"
    "within_doubleclick ?c example_world 1400 1700"
    "within_doubleclick ?c example_world 4294966800 4294967000"
    "within_doubleclick ?c example_world 4294967000 4294967100"
    "clicks_chained ?c ?w 1000 [1300, 1600]"
    by (simp_all add: within_doubleclick_def threshold_no_wrap_def example_ms)
  have jp: "jp_isUsable (jumps ?w 0)"
    by (simp add: example_world_entities example_jump_def)
  note defs = input_leftClicked_def input_clickedPilot_def input_clickedJump_def
    input_clickedAsteroid_def Let_def input_isDoubleClick_def input_clicked_def emit_def
    PLAYER_ID_def dc(2) tg th example_world_entities example_jump_def
  have r1: "snd (input_clickedPilot ?c ?e example_world 1400 5 True
      (snd (input_leftClicked ?c ?e example_world 1000 (EPilot 5) ?s0))) =
     ?s0\<lparr>input_lastClicked := Some (EPilot 5), input_mouseClickLast := 1000,
         trace := [player_targetSet 5, player_targetSet 5, player_autonavPil 5]\<rparr>"
    "fst (input_clickedPilot ?c ?e example_world 1400 5 True
      (snd (input_leftClicked ?c ?e example_world 1000 (EPilot 5) ?s0)))"
    unfolding example_first_click
    by (simp_all add: input_clickedPilot_def PLAYER_ID_def emit_def input_start_def)
  have r2: "input_mouseClickLast (snd (input_clickedPilot ?c ?e example_world 1400 5 True
      (snd (input_leftClicked ?c ?e example_world 1000 (EPilot 5) ?s0)))) = 1000"
    unfolding r1 by simp
  have r3: "trace (snd (input_leftClicked ?c ?e example_world 1700 (EPilot 5)
      (snd (input_clickedPilot ?c ?e example_world 1400 5 True
        (snd (input_leftClicked ?c ?e example_world 1000 (EPilot 5) ?s0)))))) =
     [player_targetSet 5, player_targetSet 5, player_autonavPil 5, player_targetSet 5]"
    unfolding r1 by (simp add: defs)
  have j: "trace (input_leftClicked_run ?c ?e ?w (EJump 0) [1000, 1300, 1600] ?s0) =
      [player_targetHyperspaceSet 0]"
    by (simp add: defs input_start_def)
  have a: "trace (input_leftClicked_run ?c ?e example_world (EAsteroid 0 3) [1000, 1300, 1600]
      ?s0) = [player_targetAsteroidSet 0 3, player_targetAsteroidSet 0 3,
      player_targetAsteroidSet 0 3]"
    by (simp add: defs input_start_def)
  have p: "trace (input_leftClicked_run ?c ?e example_world (EPilot 5)
      [4294966800, 4294967000, 4294967100] ?s0) =
     [player_targetSet 5, player_targetSet 5, player_targetSet 5]"
    by (simp add: defs input_start_def)
  show ?thesis
    by (intro conjI dc(1) tg [symmetric] r1(2) r2 r3 w jp j a p)
qed

lemma example_right_candidates:
  "input_clickPos_candidates example_env example_world (example_click SDL_BUTTON_RIGHT 0 0)
     x 0 1 10 15 =
   ((if pow2 (x + 500) + 2500 > 14400 then PLAYER_ID else 5, - 1, - 1, - 1, - 1), [])"
  by (simp add: input_clickPos_candidates_def example_env_def example_world_def
      example_click_def example_pilot_def pow2_def Let_def)

theorem right_click_autonav_pos_witness:
  "button (example_click SDL_BUTTON_RIGHT 0 0) = SDL_BUTTON_RIGHT \<and>
   input_clickPos_candidates example_env example_world (example_click SDL_BUTTON_RIGHT 0 0)
     2000 0 1 10 15 = ((PLAYER_ID, - 1, - 1, - 1, - 1), []) \<and>
   sqrt (pow2 (2000 - player_pos_x example_world) + pow2 (0 - player_pos_y example_world))
     > 1500 \<and>
   input_clickPos example_conf example_env example_world 1000
     (example_click SDL_BUTTON_RIGHT 0 0) 2000 0 1 10 15 (input_start example_keybinds) =
     (True, emit [player_autonavPos 2000 0] (emit [] (input_start example_keybinds))) \<and>
   input_clickPos_candidates example_env example_world (example_click SDL_BUTTON_RIGHT 0 0)
     1000 0 1 10 15 = ((PLAYER_ID, - 1, - 1, - 1, - 1), []) \<and>
   sqrt (pow2 (1000 - player_pos_x example_world) + pow2 (0 - player_pos_y example_world))
     < 1500 \<and>
   input_clickPos example_conf example_env example_world 1000
     (example_click SDL_BUTTON_RIGHT 0 0) 1000 0 1 10 15 (input_start example_keybinds) =
     (True, emit [] (input_start example_keybinds))"
proof -
  let ?ev = "example_click SDL_BUTTON_RIGHT 0 0"
  have b: "button ?ev = SDL_BUTTON_RIGHT"
    by (simp add: example_click_def)
  have c1: "input_clickPos_candidates example_env example_world ?ev 2000 0 1 10 15 =
      ((PLAYER_ID, - 1, - 1, - 1, - 1), [])"
    by (simp add: example_right_candidates pow2_def)
  have c2: "input_clickPos_candidates example_env example_world ?ev 1000 0 1 10 15 =
      ((PLAYER_ID, - 1, - 1, - 1, - 1), [])"
    by (simp add: example_right_candidates pow2_def)
  have far: "sqrt (pow2 (2000 - player_pos_x example_world)
                   + pow2 (0 - player_pos_y example_world)) > 1500"
    by (simp add: far_iff) (simp add: pow2_def example_world_def)
  have near: "sqrt (pow2 (1000 - player_pos_x example_world)
                   + pow2 (0 - player_pos_y example_world)) < 1500"
    by (simp add: far_iff) (simp add: pow2_def example_world_def)
  have r1: "input_clickPos example_conf example_env example_world 1000 ?ev 2000 0 1 10 15
      (input_start example_keybinds) =
     (True, emit [player_autonavPos 2000 0] (emit [] (input_start example_keybinds)))"
    using right_click_autonav_pos [OF b c1, of example_conf 1000 "input_start example_keybinds"]
      far by simp
  have r2: "input_clickPos example_conf example_env example_world 1000 ?ev 1000 0 1 10 15
      (input_start example_keybinds) = (True, emit [] (input_start example_keybinds))"
    using right_click_autonav_pos [OF b c2, of example_conf 1000 "input_start example_keybinds"]
      near by simp
  from b c1 far r1 c2 near r2 show ?thesis by simp
qed

lemma atan2_0: "0 < x \<Longrightarrow> atan2 0 x = 0"
  by (simp add: atan2_def)

lemma example_mouseang: "atan2 (0 - 0) (0 - (- 395)) = 0"
  by (simp add: atan2_0)

lemma example_world_fields:
  "gl_screen_w example_world = 800" "gl_screen_h example_world = 600"
  "player_pos_x example_world = 0" "player_pos_y example_world = 0"
  "pilot_getNearestAng example_world = (\<lambda>ang. (5, 1 / 10))"
  "system_getClosestAng example_world = (\<lambda>x y ang. ((- 1, - 1, - 1, - 1), pi))"
  "angle_diff example_world = (\<lambda>ref a. a - ref)"
  "gl_windowToScreenPos example_world = (\<lambda>x y. (x, y))"
  "gl_screenToGameCoords example_world = (\<lambda>mx my. (mx - 400, my - 300))"
  "gui_radarClickEvent example_world = (\<lambda>event. False)"
  "cam_getZoom example_world = 1"
  by (simp_all add: example_world_def)

lemma example_world_near_fields:
  "gl_screen_w example_world_near = 800" "gl_screen_h example_world_near = 600"
  "player_pos_x example_world_near = 0" "player_pos_y example_world_near = 0"
  "pilot_getNearestAng example_world_near = (\<lambda>ang. (5, 1 / 100))"
  "system_getClosestAng example_world_near = (\<lambda>x y ang. ((2, - 1, - 1, - 1), 2 / 100))"
  "angle_diff example_world_near = (\<lambda>ref a. a - ref)"
  "gl_windowToScreenPos example_world_near = (\<lambda>x y. (x, y))"
  "gl_screenToGameCoords example_world_near = (\<lambda>mx my. (mx - 400, my - 300))"
  "gui_radarClickEvent example_world_near = (\<lambda>event. False)"
  "cam_getZoom example_world_near = 1"
  by (simp_all add: example_world_near_def example_world_def)

lemma example_world_asset_fields:
  "gl_screen_w example_world_asset = 800" "gl_screen_h example_world_asset = 600"
  "player_pos_x example_world_asset = 0" "player_pos_y example_world_asset = 0"
  "pilot_getNearestAng example_world_asset = (\<lambda>ang. (5, 1 / 10))"
  "system_getClosestAng example_world_asset = (\<lambda>x y ang. ((2, - 1, - 1, - 1), 2 / 100))"
  "angle_diff example_world_asset = (\<lambda>ref a. a - ref)"
  "gl_windowToScreenPos example_world_asset = (\<lambda>x y. (x, y))"
  "planets example_world_asset = (\<lambda>i. example_planet)"
  by (simp_all add: example_world_asset_def example_world_def)

lemma example_click_fields:
  "button (example_click b x y) = b" "button_x (example_click b x y) = x"
  "button_y (example_click b x y) = y"
  by (simp_all add: example_click_def)

lemma example_env_fields:
  "player_p example_env" "\<not> PILOT_DEAD example_env" "player_target example_env = 5"
  "nav_planet example_env = 2"
  by (simp_all add: example_env_def)

lemma pi_64_bounds: "1 / 100 \<le> pi / 64" "2 / 100 \<le> pi / 64" "1 / 10 > pi / 64" "pi > pi / 64"
  using pi_ge_two pi_less_4 by simp_all

lemma SDL_BUTTON_distinct:
  "SDL_BUTTON_LEFT \<noteq> SDL_BUTTON_MIDDLE" "SDL_BUTTON_LEFT \<noteq> SDL_BUTTON_RIGHT"
  "SDL_BUTTON_LEFT = 1"
  by (simp_all add: SDL_BUTTON_LEFT_def SDL_BUTTON_MIDDLE_def SDL_BUTTON_RIGHT_def)

lemma example_first_target:
  "input_lastClicked s = None \<Longrightarrow> mouse_doubleclick c > 0 \<Longrightarrow> pid \<noteq> PLAYER_ID \<Longrightarrow>
     trace (snd (input_clickedPilot c e w now pid False s)) = trace s @ [player_targetSet pid]"
  "input_lastClicked s = None \<Longrightarrow> mouse_doubleclick c > 0 \<Longrightarrow> planet_isKnown (planets w pnt) \<Longrightarrow>
     trace (snd (input_clickedPlanet c e w now pnt False s)) =
       trace s @ [player_targetPlanetSet pnt]"
  "input_lastClicked s = None \<Longrightarrow> mouse_doubleclick c > 0 \<Longrightarrow> planet_isKnown (planets w pnt) \<Longrightarrow>
     fst (input_clickedPlanet c e w now pnt False s)"
  by (simp_all add: input_clickedPilot_def input_clickedPlanet_def Let_def
      input_isDoubleClick_def)

text \<open>
  C4 as the spec states it fails. A left click at the middle of the left edge of the
  screen: pilot 5, the nearest pilot by angle, is 0.1 rad off the bearing of the click,
  more than \<open>pi / 64\<close>, and the border block drops it; nothing else is there, so the
  click falls through to the normal handling, where pilot 5 is the nearest pilot by
  position and within its radius of the click, and is targeted.
\<close>

theorem border_click_angular_counterexample:
  "fst (pilot_getNearestAng example_world (atan2 (0 - 0) (0 - (- 395)))) = 5 \<and>
   \<bar>angle_diff example_world (atan2 (0 - 0) (0 - (- 395)))
      (snd (pilot_getNearestAng example_world (atan2 (0 - 0) (0 - (- 395)))))\<bar> > pi / 64 \<and>
   fst (input_clickevent_border_candidates example_world 5 300) = PLAYER_ID \<and>
   trace (input_clickevent example_conf example_env example_world 1000
            (example_click SDL_BUTTON_LEFT 5 300) (input_start example_keybinds)) =
     [hooks_runParam_mouse 1, player_targetSet 5]"
proof -
  have a: "fst (pilot_getNearestAng example_world (atan2 (0 - 0) (0 - (- 395)))) = 5"
    by (simp add: example_world_def)
  have b: "\<bar>angle_diff example_world (atan2 (0 - 0) (0 - (- 395)))
      (snd (pilot_getNearestAng example_world (atan2 (0 - 0) (0 - (- 395)))))\<bar> > pi / 64"
    unfolding example_mouseang using pi_64_bounds by (simp add: example_world_def)
  have cand: "input_clickevent_border_candidates example_world 5 300 =
      (PLAYER_ID, - 1, - 1, - 1, - 1)"
    using pi_64_bounds
    by (simp add: input_clickevent_border_candidates_def Let_def example_world_fields atan2_0)
  have border: "input_clickevent_border example_conf example_env example_world 1000 False 5 300 s
      = (False, s)" for s
    by (simp add: input_clickevent_border_def cand)
  have pos: "input_clickPos_candidates example_env example_world
      (example_click SDL_BUTTON_LEFT 5 300) (- 395) 0 1 10 15 = ((5, - 1, - 1, - 1, - 1), [])"
    by (simp add: input_clickPos_candidates_def example_world_def example_click_def
        example_pilot_def pow2_def Let_def SDL_BUTTON_LEFT_def SDL_BUTTON_RIGHT_def PLAYER_ID_def)
  have normal: "input_clickevent_normal example_conf example_env example_world 1000
      (example_click SDL_BUTTON_LEFT 5 300) 5 300 s =
      snd (input_clickedPilot example_conf example_env example_world 1000 5 False s)" for s
    by (simp add: input_clickevent_normal_def input_clickPos_def example_world_fields
        double_to_int_def example_click_fields pos PLAYER_ID_def emit_def)
  have ev: "input_clickevent example_conf example_env example_world 1000
            (example_click SDL_BUTTON_LEFT 5 300) (input_start example_keybinds) =
      snd (input_clickedPilot example_conf example_env example_world 1000 5 False
             (emit [hooks_runParam_mouse SDL_BUTTON_LEFT] (input_start example_keybinds)))"
    by (simp add: input_clickevent_def Let_def example_click_fields example_env_fields
        example_world_fields player_isFlag_def border normal SDL_BUTTON_distinct(1,2))
       (simp add: input_start_def)
  have tr: "trace (input_clickevent example_conf example_env example_world 1000
            (example_click SDL_BUTTON_LEFT 5 300) (input_start example_keybinds)) =
     [hooks_runParam_mouse 1, player_targetSet 5]"
    unfolding ev
    by (subst example_first_target(1))
      (simp_all add: input_start_def SDL_BUTTON_LEFT_def example_conf_def PLAYER_ID_def)
  from a b cand tr show ?thesis by simp
qed

theorem border_click_angular_witness:
  "input_clickevent_border_candidates example_world_near 5 300 = (5, 2, - 1, - 1, - 1) \<and>
   (5 :: nat) \<noteq> PLAYER_ID \<and> (1 / 100 :: real) \<le> pi / 64 \<and> \<not> (2 / 100 :: real) < 1 / 100 \<and>
   input_clickevent_border example_conf example_env example_world_near 1000 False 5 300
       (input_start example_keybinds) =
     input_clickedPilot example_conf example_env example_world_near 1000 5 False
       (input_start example_keybinds) \<and>
   trace (input_clickevent example_conf example_env example_world_near 1000
            (example_click SDL_BUTTON_LEFT 5 300) (input_start example_keybinds)) =
     [hooks_runParam_mouse 1, player_targetSet 5] \<and>
   trace (input_clickevent_normal example_conf example_env example_world_near 1000
            (example_click SDL_BUTTON_LEFT 5 300) 5 300
            (emit [hooks_runParam_mouse 1] (input_start example_keybinds))) =
     [hooks_runParam_mouse 1] \<and>
   input_clickevent_border_candidates example_world_asset 5 300 =
     (PLAYER_ID, 2, - 1, - 1, - 1) \<and>
   (1 / 10 :: real) > pi / 64 \<and> (2 / 100 :: real) \<le> pi / 64 \<and>
   trace (input_clickevent example_conf example_env example_world_asset 1000
            (example_click SDL_BUTTON_LEFT 5 300) (input_start example_keybinds)) =
     [hooks_runParam_mouse 1, player_targetPlanetSet 2] \<and>
   input_clickevent_border_candidates example_world 5 300 = (PLAYER_ID, - 1, - 1, - 1, - 1) \<and>
   pi > pi / 64 \<and>
   input_clickevent_border example_conf example_env example_world 1000 False 5 300
       (input_start example_keybinds) = (False, input_start example_keybinds) \<and>
   input_clickevent example_conf example_env example_world 1000
       (example_click SDL_BUTTON_LEFT 5 300) (input_start example_keybinds) =
     input_clickevent_normal example_conf example_env example_world 1000
       (example_click SDL_BUTTON_LEFT 5 300) 5 300
       (emit [hooks_runParam_mouse 1] (input_start example_keybinds))"
proof -
  let ?c = example_conf and ?e = example_env
  let ?s0 = "input_start example_keybinds"
  let ?ev = "example_click SDL_BUTTON_LEFT 5 300"
  let ?s1 = "emit [hooks_runParam_mouse 1] ?s0"
  have id: "(5 :: nat) \<noteq> PLAYER_ID"
    by (simp add: PLAYER_ID_def)
  have dc: "mouse_doubleclick ?c > 0"
    by (simp add: example_conf_def)
  have s1: "input_lastClicked ?s1 = None" "trace ?s0 = []"
    by (simp_all add: input_start_def)
  have guards: "player_p ?e \<and> \<not> player_isFlag PLAYER_DESTROYED ?s0 \<and> \<not> PILOT_DEAD ?e \<and>
      (button ?ev = SDL_BUTTON_LEFT \<or> button ?ev = SDL_BUTTON_RIGHT) \<and>
      gl_windowToScreenPos w (button_x ?ev) (button_y ?ev) = (5, 300) \<and>
      (((5 :: int) \<le> 15 \<or> (300 :: int) \<le> 15) \<or> (300 \<ge> gl_screen_h w - 15 \<or> 5 \<ge> gl_screen_w w - 15))"
    if "gl_windowToScreenPos w = (\<lambda>x y. (x, y))" for w
    using that
    by (simp add: example_env_fields example_click_fields player_isFlag_def input_start_def)
  note near = border_click_angular [of "- 395" 5 example_world_near 0 300 0 5 "1 / 100"
      2 "- 1" "- 1" "- 1" "2 / 100" "1 / 100" "2 / 100" ?c ?e 1000 False ?s0 ?ev]
  have near': "(fst (input_clickevent_border_candidates example_world_near 5 300) \<noteq> PLAYER_ID) \<and>
      input_clickevent_border ?c ?e example_world_near 1000 False 5 300 ?s0 =
        input_clickedPilot ?c ?e example_world_near 1000 5 False ?s0 \<and>
      snd (input_clickevent_border_candidates example_world_near 5 300) = (2, - 1, - 1, - 1) \<and>
      input_clickevent ?c ?e example_world_near 1000 ?ev ?s0 =
        snd (input_clickedPilot ?c ?e example_world_near 1000 5 False ?s1)"
    using near id pi_64_bounds guards [of example_world_near]
    by (simp add: example_world_near_fields atan2_0 example_click_fields SDL_BUTTON_LEFT_def
        SDL_BUTTON_RIGHT_def SDL_BUTTON_MIDDLE_def)
  have n1: "input_clickevent_border_candidates example_world_near 5 300 = (5, 2, - 1, - 1, - 1)"
    using pi_64_bounds
    by (simp add: input_clickevent_border_candidates_def Let_def example_world_near_fields
        atan2_0)
  have n2: "trace (input_clickevent ?c ?e example_world_near 1000 ?ev ?s0) =
      [hooks_runParam_mouse 1, player_targetSet 5]"
    using near' example_first_target(1) [OF s1(1) dc id] by (simp add: s1)
  have npos: "input_clickPos_candidates ?e example_world_near ?ev (- 395) 0 1 10 15 =
      ((PLAYER_ID, - 1, - 1, - 1, - 1), [])"
    by (simp add: input_clickPos_candidates_def example_world_near_def example_world_def
        example_click_def example_pilot_def pow2_def Let_def SDL_BUTTON_LEFT_def
        SDL_BUTTON_RIGHT_def PLAYER_ID_def)
  have n3: "trace (input_clickevent_normal ?c ?e example_world_near 1000 ?ev 5 300 ?s1) =
      [hooks_runParam_mouse 1]"
    by (simp add: input_clickevent_normal_def input_clickPos_def example_world_near_fields
        double_to_int_def example_click_fields npos emit_def input_start_def)
  note asset = border_click_angular [of "- 395" 5 example_world_asset 0 300 0 5 "1 / 10"
      2 "- 1" "- 1" "- 1" "2 / 100" "1 / 10" "2 / 100" ?c ?e 1000 False ?s0 ?ev]
  have asset': "fst (input_clickevent_border_candidates example_world_asset 5 300) = PLAYER_ID \<and>
      snd (input_clickevent_border_candidates example_world_asset 5 300) = (2, - 1, - 1, - 1) \<and>
      input_clickevent ?c ?e example_world_asset 1000 ?ev ?s0 =
        (case input_clickedPlanet ?c ?e example_world_asset 1000 2 False ?s1 of
           (True, s1) \<Rightarrow> s1
         | (False, s1) \<Rightarrow> input_clickevent_normal ?c ?e example_world_asset 1000 ?ev 5 300 s1)"
    using asset id pi_64_bounds guards [of example_world_asset]
    by (simp add: example_world_asset_fields atan2_0 example_click_fields SDL_BUTTON_LEFT_def
        SDL_BUTTON_RIGHT_def SDL_BUTTON_MIDDLE_def)
  have a1: "input_clickevent_border_candidates example_world_asset 5 300 =
      (PLAYER_ID, 2, - 1, - 1, - 1)"
    using asset' by (simp add: prod_eq_iff)
  have kn: "planet_isKnown (planets example_world_asset 2)"
    by (simp add: example_world_asset_fields example_planet_def)
  have a2: "trace (input_clickevent ?c ?e example_world_asset 1000 ?ev ?s0) =
      [hooks_runParam_mouse 1, player_targetPlanetSet 2]"
    using asset' example_first_target(2,3) [OF s1(1) dc kn, of ?e 1000]
    by (simp add: border_fall_through s1)
  note far = border_click_angular [of "- 395" 5 example_world 0 300 0 5 "1 / 10"
      "- 1" "- 1" "- 1" "- 1" pi "1 / 10" pi ?c ?e 1000 False ?s0 ?ev]
  have far': "fst (input_clickevent_border_candidates example_world 5 300) = PLAYER_ID \<and>
      snd (input_clickevent_border_candidates example_world 5 300) = (- 1, - 1, - 1, - 1) \<and>
      input_clickevent_border ?c ?e example_world 1000 False 5 300 ?s0 = (False, ?s0) \<and>
      input_clickevent ?c ?e example_world 1000 ?ev ?s0 =
        input_clickevent_normal ?c ?e example_world 1000 ?ev 5 300 ?s1"
    using far pi_64_bounds guards [of example_world]
    by (simp add: example_world_fields atan2_0 example_click_fields SDL_BUTTON_LEFT_def
        SDL_BUTTON_RIGHT_def SDL_BUTTON_MIDDLE_def)
  have f1: "input_clickevent_border_candidates example_world 5 300 =
      (PLAYER_ID, - 1, - 1, - 1, - 1)"
    using far' by (simp add: prod_eq_iff)
  show ?thesis
    using id pi_64_bounds near' n1 n2 n3 a1 a2 far' f1
    by (intro conjI) simp_all
qed

section \<open>Properties of the ship statistics\<close>

text \<open>
  C9: starting from \<^verbatim>\<open>ss_statsInit\<close>, where a relative-double field is 1.0, two entries
  of +0.10 for that field applied with the amount factor 1, through
  \<^verbatim>\<open>ss_statsModFromList\<close> or twice \<^verbatim>\<open>ss_statsModSingle\<close>, give 1.21 and not 1.20.
\<close>

theorem stat_multiplicative_stacking:
  assumes "ss_kind t = Some RelativeDouble"
    and "ssl_type e1 = t" and "ssl_d e1 = 1 / 10"
    and "ssl_type e2 = t" and "ssl_d e2 = 1 / 10"
  shows "ss_double (ss_statsModFromList ss_statsInit [e1, e2] 1) t = 121 / 100 \<and>
         ss_double (ss_statsModFromList ss_statsInit [e1, e2] 1) t \<noteq> 120 / 100 \<and>
         ss_double (ss_statsModSingle (ss_statsModSingle ss_statsInit e1 1) e2 1) t = 121 / 100"
proof -
  have "ss_double (ss_statsModFromList ss_statsInit [e1, e2] 1) t =
        (1 + ssl_d e1) * (1 + ssl_d e2)"
    using assms(1,2,4) by (simp add: ss_statsModSingle_def ss_statsInit_def Let_def)
  also have "\<dots> = 121 / 100"
    unfolding assms(3) assms(5) by simp
  finally have r: "ss_double (ss_statsModFromList ss_statsInit [e1, e2] 1) t = 121 / 100" .
  then show ?thesis by simp
qed

theorem stat_multiplicative_stacking_witness:
  "ss_kind SS_TYPE_D_SPEED_MOD = Some RelativeDouble \<and>
   ss_double (ss_statsModFromList ss_statsInit
      [\<lparr>ssl_target = 0, ssl_type = SS_TYPE_D_SPEED_MOD, ssl_d = 1 / 10, ssl_i = 0\<rparr>,
       \<lparr>ssl_target = 0, ssl_type = SS_TYPE_D_SPEED_MOD, ssl_d = 1 / 10, ssl_i = 0\<rparr>] 1)
     SS_TYPE_D_SPEED_MOD = 121 / 100"
proof -
  have k: "ss_kind SS_TYPE_D_SPEED_MOD = Some RelativeDouble"
    by (simp add: ss_kind_def ss_relative_types_def)
  show ?thesis
    using k stat_multiplicative_stacking [OF k,
        of "\<lparr>ssl_target = 0, ssl_type = SS_TYPE_D_SPEED_MOD, ssl_d = 1 / 10, ssl_i = 0\<rparr>"
           "\<lparr>ssl_target = 0, ssl_type = SS_TYPE_D_SPEED_MOD, ssl_d = 1 / 10, ssl_i = 0\<rparr>"]
    by simp
qed

end
